theory Spec2Isabelle
  imports Main "HOL-Library.Word"
begin

section \<open>The runtime host bridge (package registry)\<close>

text \<open>
  The development follows the Go file that defines \<^verbatim>\<open>RuntimeHostNode\<close>,
  \<^verbatim>\<open>runtimeHostHandler\<close> and \<^verbatim>\<open>runtimeHostNotifier\<close>.

  Conventions of the embedding:
  \<^item> a Go function returning a pointer and an \<^verbatim>\<open>error\<close> returns a pair of options here, so that
    "a response and an error at once" is a value the type allows and its absence is a
    theorem, not a typing fact;
  \<^item> a collaborator reached through an interface (key-manager client, light client,
    transaction pool, consensus backends, local storage) is a record of functions; a
    collaborator call yields \<open>Inl err\<close> or \<open>Inr value\<close>;
  \<^item> the \<^verbatim>\<open>context.Context\<close> argument is dropped where the function only passes it on;
  \<^item> a panic is the constructor \<open>Panic\<close> of \<open>outcome\<close>.
\<close>

subsection \<open>Errors and outcomes\<close>

type_synonym bytes = "8 word list"

type_synonym Version = "nat \<times> nat \<times> nat"

datatype error =
    errMethodNotSupported
  | errEndpointNotSupported
  | ErrCanceled
  | ErrCollaborator string
  | ErrWrap string error
  | ErrProvisionVersion Version error

datatype 'a outcome = Panic string | Returns 'a

subsection \<open>Protocol messages\<close>

text \<open>
  The message types are declared in the \<^verbatim>\<open>protocol\<close> package, which is not among the
  sources; each record lists the fields the handlers read or write. Payloads whose
  structure the handlers never inspect are byte strings.
\<close>

record HostRPCCallRequest =
  rpc_Endpoint :: string
  rpc_Request :: bytes
  rpc_Kind :: nat
  rpc_PeerFeedback :: "nat option"

datatype HostStorageEndpoint =
    HostStorageEndpointRuntime
  | HostStorageEndpointConsensus
  | HostStorageEndpointOther nat

record HostStorageSyncRequest =
  sync_Endpoint :: HostStorageEndpoint
  SyncGet :: "bytes option"
  SyncGetPrefixes :: "bytes option"
  SyncIterate :: "bytes option"

record HostLocalStorageGetRequest =
  lsget_Key :: bytes

record HostLocalStorageSetRequest =
  lsset_Key :: bytes
  lsset_Value :: bytes

record HostFetchConsensusBlockRequest =
  blk_Height :: "64 word"

text \<open>
  \<^verbatim>\<open>protocol.EventKind\<close> is a small integer type with four named constants; any other
  wire value is \<open>EventKindOther\<close>.
\<close>

datatype EventKind =
    EventKindStaking
  | EventKindRegistry
  | EventKindRootHash
  | EventKindGovernance
  | EventKindOther nat

record HostFetchConsensusEventsRequest =
  evs_Height :: "64 word"
  evs_Kind :: EventKind

text \<open>
  The types of \<^verbatim>\<open>Offset\<close> and \<^verbatim>\<open>Limit\<close> are declared outside the sources; the
  specification gives both as numbers (\<^verbatim>\<open>fetchTxBatch{offset=5, limit=3}\<close>).
\<close>

record HostFetchTxBatchRequest =
  txb_Offset :: nat
  txb_Limit :: nat

record HostProveFreshnessRequest =
  pf_Blob :: bytes

record HostRPCCallResponse =
  rpc_Response :: bytes

record HostStorageSyncResponse =
  ProofResponse :: bytes

record HostLocalStorageGetResponse =
  lsget_Value :: bytes

record HostFetchConsensusBlockResponse =
  blk_Block :: bytes

datatype StakingEvent = StakingEvent bytes
datatype RegistryEvent = RegistryEvent bytes
datatype RootHashEvent = RootHashEvent bytes
datatype GovernanceEvent = GovernanceEvent bytes

text \<open>\<^verbatim>\<open>consensusResults.Event\<close>: one optional field per backend.\<close>

record Event =
  Staking :: "StakingEvent option"
  Registry :: "RegistryEvent option"
  RootHash :: "RootHashEvent option"
  Governance :: "GovernanceEvent option"

record HostFetchConsensusEventsResponse =
  Events :: "Event list"

record HostFetchGenesisHeightResponse =
  gen_Height :: "64 word"

record HostFetchTxBatchResponse =
  Batch :: "bytes list"

record HostProveFreshnessResponse =
  SignedTx :: bytes
  pf_Proof :: bytes

record HostIdentityResponse =
  NodeID :: bytes

record RuntimeKeyManagerPolicyUpdateRequest =
  SignedPolicyRaw :: bytes

record RuntimeKeyManagerQuotePolicyUpdateRequest =
  qp_Policy :: bytes

text \<open>
  \<^verbatim>\<open>protocol.Body\<close>: the envelope, a struct of optional fields, used for requests and
  for responses alike. The ten host requests and their responses are the fields
  \<^verbatim>\<open>Handle\<close> touches; the two runtime requests are the ones the notifier sends.
\<close>

record Body =
  HostRPCCallRequest :: "HostRPCCallRequest option"
  HostRPCCallResponse :: "HostRPCCallResponse option"
  HostStorageSyncRequest :: "HostStorageSyncRequest option"
  HostStorageSyncResponse :: "HostStorageSyncResponse option"
  HostLocalStorageGetRequest :: "HostLocalStorageGetRequest option"
  HostLocalStorageGetResponse :: "HostLocalStorageGetResponse option"
  HostLocalStorageSetRequest :: "HostLocalStorageSetRequest option"
  HostLocalStorageSetResponse :: "unit option"
  HostFetchConsensusBlockRequest :: "HostFetchConsensusBlockRequest option"
  HostFetchConsensusBlockResponse :: "HostFetchConsensusBlockResponse option"
  HostFetchConsensusEventsRequest :: "HostFetchConsensusEventsRequest option"
  HostFetchConsensusEventsResponse :: "HostFetchConsensusEventsResponse option"
  HostFetchGenesisHeightRequest :: "unit option"
  HostFetchGenesisHeightResponse :: "HostFetchGenesisHeightResponse option"
  HostFetchTxBatchRequest :: "HostFetchTxBatchRequest option"
  HostFetchTxBatchResponse :: "HostFetchTxBatchResponse option"
  HostProveFreshnessRequest :: "HostProveFreshnessRequest option"
  HostProveFreshnessResponse :: "HostProveFreshnessResponse option"
  HostIdentityRequest :: "unit option"
  HostIdentityResponse :: "HostIdentityResponse option"
  RuntimeKeyManagerPolicyUpdateRequest :: "RuntimeKeyManagerPolicyUpdateRequest option"
  RuntimeKeyManagerQuotePolicyUpdateRequest :: "RuntimeKeyManagerQuotePolicyUpdateRequest option"

text \<open>The zero value \<^verbatim>\<open>protocol.Body{}\<close>: every field nil.\<close>

definition empty_Body :: Body where
  "empty_Body =
     \<lparr> HostRPCCallRequest = None, HostRPCCallResponse = None,
       HostStorageSyncRequest = None, HostStorageSyncResponse = None,
       HostLocalStorageGetRequest = None, HostLocalStorageGetResponse = None,
       HostLocalStorageSetRequest = None, HostLocalStorageSetResponse = None,
       HostFetchConsensusBlockRequest = None, HostFetchConsensusBlockResponse = None,
       HostFetchConsensusEventsRequest = None, HostFetchConsensusEventsResponse = None,
       HostFetchGenesisHeightRequest = None, HostFetchGenesisHeightResponse = None,
       HostFetchTxBatchRequest = None, HostFetchTxBatchResponse = None,
       HostProveFreshnessRequest = None, HostProveFreshnessResponse = None,
       HostIdentityRequest = None, HostIdentityResponse = None,
       RuntimeKeyManagerPolicyUpdateRequest = None,
       RuntimeKeyManagerQuotePolicyUpdateRequest = None \<rparr>"

subsection \<open>Collaborators of the request handler\<close>

record KeyManagerClient =
  CallEnclave :: "bytes \<Rightarrow> nat \<Rightarrow> nat option \<Rightarrow> error + bytes"

record ReadSyncer =
  rs_SyncGet :: "bytes \<Rightarrow> error + bytes"
  rs_SyncGetPrefixes :: "bytes \<Rightarrow> error + bytes"
  rs_SyncIterate :: "bytes \<Rightarrow> error + bytes"

record LocalStorage =
  ls_Get :: "bytes \<Rightarrow> error + bytes"
  ls_Set :: "bytes \<Rightarrow> bytes \<Rightarrow> error option"

record LightClient =
  GetLightBlock :: "int \<Rightarrow> error + bytes"

record TxQueueMeta =
  Raw :: bytes

record TransactionPool =
  GetSchedulingExtra :: "nat \<Rightarrow> nat \<Rightarrow> TxQueueMeta list"

record Identity =
  NodeSigner :: nat
  NodeSigner_Public :: bytes

record RuntimeHostHandlerEnvironment =
  GetKeyManagerClient :: "error + KeyManagerClient"
  GetTxPool :: "error + TransactionPool"
  GetNodeIdentity :: "error + Identity"
  GetLightClient :: "error + LightClient"

record Runtime =
  Storage :: "ReadSyncer option"
  LocalStorage :: LocalStorage

text \<open>
  What the handlers ask of \<^verbatim>\<open>consensus.Backend\<close>: the state read syncer, the events of
  the four service backends at a height, the height of the genesis document, and the
  two steps of the freshness proof (\<^verbatim>\<open>registry.NewProveFreshnessTx\<close>, which builds the
  transaction from the blob, and \<^verbatim>\<open>consensus.SignAndSubmitTxWithProof\<close>).
\<close>

record ConsensusBackend =
  State :: ReadSyncer
  Staking_GetEvents :: "int \<Rightarrow> error + StakingEvent list"
  Registry_GetEvents :: "int \<Rightarrow> error + RegistryEvent list"
  RootHash_GetEvents :: "int \<Rightarrow> error + RootHashEvent list"
  Governance_GetEvents :: "int \<Rightarrow> error + GovernanceEvent list"
  GetGenesisDocument_Height :: "error + int"
  SignAndSubmitTxWithProof :: "nat \<Rightarrow> bytes \<Rightarrow> error + bytes \<times> bytes"
  NewProveFreshnessTx :: "bytes \<Rightarrow> bytes"

record runtimeHostHandler =
  h_env :: RuntimeHostHandlerEnvironment
  h_runtime :: Runtime
  h_consensus :: ConsensusBackend

subsection \<open>The request handlers\<close>

text \<open>
  \<^verbatim>\<open>runtimeKeymanager.EnclaveRPCEndpoint\<close> is declared outside the sources; the
  handler only compares the request's endpoint with it.
\<close>

definition EnclaveRPCEndpoint :: string where
  "EnclaveRPCEndpoint = ''key-manager''"

text \<open>\<^verbatim>\<open>cbor.FixSliceForSerde\<close> turns a nil slice into an empty one; both are \<open>[]\<close> here.\<close>

definition FixSliceForSerde :: "bytes \<Rightarrow> bytes" where
  "FixSliceForSerde res = res"

definition handleHostRPCCall ::
  "runtimeHostHandler \<Rightarrow> HostRPCCallRequest \<Rightarrow> HostRPCCallResponse option \<times> error option" where
  "handleHostRPCCall h rq =
     (if rpc_Endpoint rq = EnclaveRPCEndpoint then
        (case GetKeyManagerClient (h_env h) of
           Inl err \<Rightarrow> (None, Some err)
         | Inr kmCli \<Rightarrow>
            (case CallEnclave kmCli (rpc_Request rq) (rpc_Kind rq) (rpc_PeerFeedback rq) of
               Inl err \<Rightarrow> (None, Some err)
             | Inr res \<Rightarrow> (Some \<lparr> rpc_Response = FixSliceForSerde res \<rparr>, None)))
      else (None, Some errEndpointNotSupported))"

definition handleHostStorageSync ::
  "runtimeHostHandler \<Rightarrow> HostStorageSyncRequest \<Rightarrow> HostStorageSyncResponse option \<times> error option" where
  "handleHostStorageSync h rq =
     (case (case sync_Endpoint rq of
              HostStorageEndpointRuntime \<Rightarrow> Storage (h_runtime h)
            | HostStorageEndpointConsensus \<Rightarrow> Some (State (h_consensus h))
            | HostStorageEndpointOther _ \<Rightarrow> None) of
        None \<Rightarrow> (None, Some errEndpointNotSupported)
      | Some rs \<Rightarrow>
         (case (case SyncGet rq of
                  Some q \<Rightarrow> Some (rs_SyncGet rs q)
                | None \<Rightarrow>
                   (case SyncGetPrefixes rq of
                      Some q \<Rightarrow> Some (rs_SyncGetPrefixes rs q)
                    | None \<Rightarrow>
                       (case SyncIterate rq of
                          Some q \<Rightarrow> Some (rs_SyncIterate rs q)
                        | None \<Rightarrow> None))) of
            None \<Rightarrow> (None, Some errMethodNotSupported)
          | Some (Inl err) \<Rightarrow> (None, Some err)
          | Some (Inr rsp) \<Rightarrow> (Some \<lparr> ProofResponse = rsp \<rparr>, None)))"

definition handleHostLocalStorageGet ::
  "runtimeHostHandler \<Rightarrow> HostLocalStorageGetRequest \<Rightarrow>
     HostLocalStorageGetResponse option \<times> error option" where
  "handleHostLocalStorageGet h rq =
     (case ls_Get (LocalStorage (h_runtime h)) (lsget_Key rq) of
        Inl err \<Rightarrow> (None, Some err)
      | Inr v \<Rightarrow> (Some \<lparr> lsget_Value = v \<rparr>, None))"

definition handleHostLocalStorageSet ::
  "runtimeHostHandler \<Rightarrow> HostLocalStorageSetRequest \<Rightarrow> unit option \<times> error option" where
  "handleHostLocalStorageSet h rq =
     (case ls_Set (LocalStorage (h_runtime h)) (lsset_Key rq) (lsset_Value rq) of
        Some err \<Rightarrow> (None, Some err)
      | None \<Rightarrow> (Some (), None))"

text \<open>\<^verbatim>\<open>int64(rq.Height)\<close> reads the 64 bits as a signed number.\<close>

definition handleHostFetchConsensusBlock ::
  "runtimeHostHandler \<Rightarrow> HostFetchConsensusBlockRequest \<Rightarrow>
     HostFetchConsensusBlockResponse option \<times> error option" where
  "handleHostFetchConsensusBlock h rq =
     (case GetLightClient (h_env h) of
        Inl err \<Rightarrow> (None, Some err)
      | Inr lc \<Rightarrow>
         (case GetLightBlock lc (sint (blk_Height rq)) of
            Inl err \<Rightarrow> (None, Some (ErrWrap ''light block fetch failure'' err))
          | Inr blk \<Rightarrow> (Some \<lparr> blk_Block = blk \<rparr>, None)))"

text \<open>
  The four loops of \<^verbatim>\<open>handleHostFetchConsensusEvents\<close>: each starts from an empty
  slice and appends one freshly built \<^verbatim>\<open>Event\<close> per backend event.
\<close>

definition empty_Event :: Event where
  "empty_Event = \<lparr> Staking = None, Registry = None, RootHash = None, Governance = None \<rparr>"

fun append_staking :: "Event list \<Rightarrow> StakingEvent list \<Rightarrow> Event list" where
  "append_staking evs [] = evs"
| "append_staking evs (sev # sevs) =
     append_staking (evs @ [empty_Event \<lparr> Staking := Some sev \<rparr>]) sevs"

fun append_registry :: "Event list \<Rightarrow> RegistryEvent list \<Rightarrow> Event list" where
  "append_registry evs [] = evs"
| "append_registry evs (rev' # revs) =
     append_registry (evs @ [empty_Event \<lparr> Registry := Some rev' \<rparr>]) revs"

fun append_roothash :: "Event list \<Rightarrow> RootHashEvent list \<Rightarrow> Event list" where
  "append_roothash evs [] = evs"
| "append_roothash evs (rev' # revs) =
     append_roothash (evs @ [empty_Event \<lparr> RootHash := Some rev' \<rparr>]) revs"

fun append_governance :: "Event list \<Rightarrow> GovernanceEvent list \<Rightarrow> Event list" where
  "append_governance evs [] = evs"
| "append_governance evs (gev # gevs) =
     append_governance (evs @ [empty_Event \<lparr> Governance := Some gev \<rparr>]) gevs"

definition handleHostFetchConsensusEvents ::
  "runtimeHostHandler \<Rightarrow> HostFetchConsensusEventsRequest \<Rightarrow>
     HostFetchConsensusEventsResponse option \<times> error option" where
  "handleHostFetchConsensusEvents h rq =
     (case evs_Kind rq of
        EventKindStaking \<Rightarrow>
         (case Staking_GetEvents (h_consensus h) (sint (evs_Height rq)) of
            Inl err \<Rightarrow> (None, Some err)
          | Inr sevs \<Rightarrow> (Some \<lparr> Events = append_staking [] sevs \<rparr>, None))
      | EventKindRegistry \<Rightarrow>
         (case Registry_GetEvents (h_consensus h) (sint (evs_Height rq)) of
            Inl err \<Rightarrow> (None, Some err)
          | Inr revs \<Rightarrow> (Some \<lparr> Events = append_registry [] revs \<rparr>, None))
      | EventKindRootHash \<Rightarrow>
         (case RootHash_GetEvents (h_consensus h) (sint (evs_Height rq)) of
            Inl err \<Rightarrow> (None, Some err)
          | Inr revs \<Rightarrow> (Some \<lparr> Events = append_roothash [] revs \<rparr>, None))
      | EventKindGovernance \<Rightarrow>
         (case Governance_GetEvents (h_consensus h) (sint (evs_Height rq)) of
            Inl err \<Rightarrow> (None, Some err)
          | Inr gevs \<Rightarrow> (Some \<lparr> Events = append_governance [] gevs \<rparr>, None))
      | EventKindOther _ \<Rightarrow> (None, Some errMethodNotSupported))"

text \<open>\<^verbatim>\<open>uint64(doc.Height)\<close> keeps the low 64 bits of the signed height.\<close>

definition handleHostFetchGenesisHeight ::
  "runtimeHostHandler \<Rightarrow> unit \<Rightarrow> HostFetchGenesisHeightResponse option \<times> error option" where
  "handleHostFetchGenesisHeight h rq =
     (case GetGenesisDocument_Height (h_consensus h) of
        Inl err \<Rightarrow> (None, Some err)
      | Inr height \<Rightarrow> (Some \<lparr> gen_Height = word_of_int height \<rparr>, None))"

text \<open>The loop of \<^verbatim>\<open>handleHostFetchTxBatch\<close> appends \<^verbatim>\<open>tx.Raw()\<close> for each transaction.\<close>

fun append_raw :: "bytes list \<Rightarrow> TxQueueMeta list \<Rightarrow> bytes list" where
  "append_raw raw [] = raw"
| "append_raw raw (tx # batch) = append_raw (raw @ [Raw tx]) batch"

definition handleHostFetchTxBatch ::
  "runtimeHostHandler \<Rightarrow> HostFetchTxBatchRequest \<Rightarrow>
     HostFetchTxBatchResponse option \<times> error option" where
  "handleHostFetchTxBatch h rq =
     (case GetTxPool (h_env h) of
        Inl err \<Rightarrow> (None, Some err)
      | Inr txPool \<Rightarrow>
         (let batch = GetSchedulingExtra txPool (txb_Offset rq) (txb_Limit rq)
          in (Some \<lparr> Batch = append_raw [] batch \<rparr>, None)))"

definition handleHostProveFreshness ::
  "runtimeHostHandler \<Rightarrow> HostProveFreshnessRequest \<Rightarrow>
     HostProveFreshnessResponse option \<times> error option" where
  "handleHostProveFreshness h rq =
     (case GetNodeIdentity (h_env h) of
        Inl err \<Rightarrow> (None, Some err)
      | Inr identity \<Rightarrow>
         (let tx = NewProveFreshnessTx (h_consensus h) (pf_Blob rq)
          in case SignAndSubmitTxWithProof (h_consensus h) (NodeSigner identity) tx of
               Inl err \<Rightarrow> (None, Some err)
             | Inr (sigTx, proof) \<Rightarrow> (Some \<lparr> SignedTx = sigTx, pf_Proof = proof \<rparr>, None)))"

definition handleHostIdentity ::
  "runtimeHostHandler \<Rightarrow> unit \<Rightarrow> HostIdentityResponse option \<times> error option" where
  "handleHostIdentity h rq =
     (case GetNodeIdentity (h_env h) of
        Inl err \<Rightarrow> (None, Some err)
      | Inr identity \<Rightarrow> (Some \<lparr> NodeID = NodeSigner_Public identity \<rparr>, None))"

text \<open>
  \<^verbatim>\<open>Handle\<close>: the \<^verbatim>\<open>switch\<close> takes the first case whose request field is non-nil, in
  the order written; the chosen handler's two results are stored in the matching
  response field of a zero \<^verbatim>\<open>rsp\<close> and in \<^verbatim>\<open>err\<close>. \<open>dispatch\<close> is the switch,
  \<open>Handle\<close> adds the final test of \<^verbatim>\<open>err\<close>.
\<close>

definition dispatch :: "runtimeHostHandler \<Rightarrow> Body \<Rightarrow> Body \<times> error option" where
  "dispatch h rq =
     (case HostRPCCallRequest rq of
        Some q \<Rightarrow> (let (r, err) = handleHostRPCCall h q
                   in (empty_Body \<lparr> HostRPCCallResponse := r \<rparr>, err))
      | None \<Rightarrow>
     (case HostStorageSyncRequest rq of
        Some q \<Rightarrow> (let (r, err) = handleHostStorageSync h q
                   in (empty_Body \<lparr> HostStorageSyncResponse := r \<rparr>, err))
      | None \<Rightarrow>
     (case HostLocalStorageGetRequest rq of
        Some q \<Rightarrow> (let (r, err) = handleHostLocalStorageGet h q
                   in (empty_Body \<lparr> HostLocalStorageGetResponse := r \<rparr>, err))
      | None \<Rightarrow>
     (case HostLocalStorageSetRequest rq of
        Some q \<Rightarrow> (let (r, err) = handleHostLocalStorageSet h q
                   in (empty_Body \<lparr> HostLocalStorageSetResponse := r \<rparr>, err))
      | None \<Rightarrow>
     (case HostFetchConsensusBlockRequest rq of
        Some q \<Rightarrow> (let (r, err) = handleHostFetchConsensusBlock h q
                   in (empty_Body \<lparr> HostFetchConsensusBlockResponse := r \<rparr>, err))
      | None \<Rightarrow>
     (case HostFetchConsensusEventsRequest rq of
        Some q \<Rightarrow> (let (r, err) = handleHostFetchConsensusEvents h q
                   in (empty_Body \<lparr> HostFetchConsensusEventsResponse := r \<rparr>, err))
      | None \<Rightarrow>
     (case HostFetchGenesisHeightRequest rq of
        Some q \<Rightarrow> (let (r, err) = handleHostFetchGenesisHeight h q
                   in (empty_Body \<lparr> HostFetchGenesisHeightResponse := r \<rparr>, err))
      | None \<Rightarrow>
     (case HostFetchTxBatchRequest rq of
        Some q \<Rightarrow> (let (r, err) = handleHostFetchTxBatch h q
                   in (empty_Body \<lparr> HostFetchTxBatchResponse := r \<rparr>, err))
      | None \<Rightarrow>
     (case HostProveFreshnessRequest rq of
        Some q \<Rightarrow> (let (r, err) = handleHostProveFreshness h q
                   in (empty_Body \<lparr> HostProveFreshnessResponse := r \<rparr>, err))
      | None \<Rightarrow>
     (case HostIdentityRequest rq of
        Some q \<Rightarrow> (let (r, err) = handleHostIdentity h q
                   in (empty_Body \<lparr> HostIdentityResponse := r \<rparr>, err))
      | None \<Rightarrow> (empty_Body, Some errMethodNotSupported)))))))))))"

definition Handle :: "runtimeHostHandler \<Rightarrow> Body \<Rightarrow> Body option \<times> error option" where
  "Handle h rq =
     (let (rsp, err) = dispatch h rq
      in if err \<noteq> None then (None, err) else (Some rsp, None))"

subsection \<open>Populated variants of an envelope\<close>

text \<open>
  The ten host request variants, in the order of the cases of \<^verbatim>\<open>Handle\<close>.
  \<open>request_variants\<close> lists the populated host requests of an envelope in that
  order, \<open>response_variants\<close> the populated host responses; \<open>only v rq\<close> clears every
  host request of \<open>rq\<close> but \<open>v\<close>, and \<open>first_request\<close> keeps the first populated one.
\<close>

datatype variant =
    RPCCall | StorageSync | LocalStorageGet | LocalStorageSet | FetchConsensusBlock
  | FetchConsensusEvents | FetchGenesisHeight | FetchTxBatch | ProveFreshness | HostIdentity

definition request_variants :: "Body \<Rightarrow> variant list" where
  "request_variants rq =
     (case HostRPCCallRequest rq of None \<Rightarrow> [] | Some _ \<Rightarrow> [RPCCall]) @
     (case HostStorageSyncRequest rq of None \<Rightarrow> [] | Some _ \<Rightarrow> [StorageSync]) @
     (case HostLocalStorageGetRequest rq of None \<Rightarrow> [] | Some _ \<Rightarrow> [LocalStorageGet]) @
     (case HostLocalStorageSetRequest rq of None \<Rightarrow> [] | Some _ \<Rightarrow> [LocalStorageSet]) @
     (case HostFetchConsensusBlockRequest rq of None \<Rightarrow> [] | Some _ \<Rightarrow> [FetchConsensusBlock]) @
     (case HostFetchConsensusEventsRequest rq of None \<Rightarrow> [] | Some _ \<Rightarrow> [FetchConsensusEvents]) @
     (case HostFetchGenesisHeightRequest rq of None \<Rightarrow> [] | Some _ \<Rightarrow> [FetchGenesisHeight]) @
     (case HostFetchTxBatchRequest rq of None \<Rightarrow> [] | Some _ \<Rightarrow> [FetchTxBatch]) @
     (case HostProveFreshnessRequest rq of None \<Rightarrow> [] | Some _ \<Rightarrow> [ProveFreshness]) @
     (case HostIdentityRequest rq of None \<Rightarrow> [] | Some _ \<Rightarrow> [HostIdentity])"

definition response_variants :: "Body \<Rightarrow> variant list" where
  "response_variants rsp =
     (case HostRPCCallResponse rsp of None \<Rightarrow> [] | Some _ \<Rightarrow> [RPCCall]) @
     (case HostStorageSyncResponse rsp of None \<Rightarrow> [] | Some _ \<Rightarrow> [StorageSync]) @
     (case HostLocalStorageGetResponse rsp of None \<Rightarrow> [] | Some _ \<Rightarrow> [LocalStorageGet]) @
     (case HostLocalStorageSetResponse rsp of None \<Rightarrow> [] | Some _ \<Rightarrow> [LocalStorageSet]) @
     (case HostFetchConsensusBlockResponse rsp of None \<Rightarrow> [] | Some _ \<Rightarrow> [FetchConsensusBlock]) @
     (case HostFetchConsensusEventsResponse rsp of None \<Rightarrow> [] | Some _ \<Rightarrow> [FetchConsensusEvents]) @
     (case HostFetchGenesisHeightResponse rsp of None \<Rightarrow> [] | Some _ \<Rightarrow> [FetchGenesisHeight]) @
     (case HostFetchTxBatchResponse rsp of None \<Rightarrow> [] | Some _ \<Rightarrow> [FetchTxBatch]) @
     (case HostProveFreshnessResponse rsp of None \<Rightarrow> [] | Some _ \<Rightarrow> [ProveFreshness]) @
     (case HostIdentityResponse rsp of None \<Rightarrow> [] | Some _ \<Rightarrow> [HostIdentity])"

definition only :: "variant \<Rightarrow> Body \<Rightarrow> Body" where
  "only v rq =
     rq \<lparr> HostRPCCallRequest := (if v = RPCCall then HostRPCCallRequest rq else None),
          HostStorageSyncRequest := (if v = StorageSync then HostStorageSyncRequest rq else None),
          HostLocalStorageGetRequest :=
            (if v = LocalStorageGet then HostLocalStorageGetRequest rq else None),
          HostLocalStorageSetRequest :=
            (if v = LocalStorageSet then HostLocalStorageSetRequest rq else None),
          HostFetchConsensusBlockRequest :=
            (if v = FetchConsensusBlock then HostFetchConsensusBlockRequest rq else None),
          HostFetchConsensusEventsRequest :=
            (if v = FetchConsensusEvents then HostFetchConsensusEventsRequest rq else None),
          HostFetchGenesisHeightRequest :=
            (if v = FetchGenesisHeight then HostFetchGenesisHeightRequest rq else None),
          HostFetchTxBatchRequest :=
            (if v = FetchTxBatch then HostFetchTxBatchRequest rq else None),
          HostProveFreshnessRequest :=
            (if v = ProveFreshness then HostProveFreshnessRequest rq else None),
          HostIdentityRequest := (if v = HostIdentity then HostIdentityRequest rq else None) \<rparr>"

definition first_request :: "Body \<Rightarrow> Body" where
  "first_request rq = (case request_variants rq of [] \<Rightarrow> rq | v # _ \<Rightarrow> only v rq)"



subsection \<open>A concrete handler\<close>

text \<open>
  Modelled from the spec: the transaction pool (package \<^verbatim>\<open>txpool\<close>) is not among the
  sources. The specification describes \<^verbatim>\<open>GetSchedulingExtra\<close> as a "windowed pull from
  the transaction pool using an offset and limit" that returns transactions "in pool
  order": the pool is an ordered list, the window skips \<open>offset\<close> transactions and
  holds at most \<open>limit\<close>.
\<close>

definition windowed_pool :: "TxQueueMeta list \<Rightarrow> TransactionPool" where
  "windowed_pool txs = \<lparr> GetSchedulingExtra = (\<lambda>offset limit. take limit (drop offset txs)) \<rparr>"

text \<open>
  A handler over collaborators that always succeed: the key manager and the read syncers
  echo the request, local storage is empty, every backend holds two events.
\<close>

definition echo_syncer :: ReadSyncer where
  "echo_syncer = \<lparr> rs_SyncGet = Inr, rs_SyncGetPrefixes = Inr, rs_SyncIterate = Inr \<rparr>"

definition echo_handler :: "TxQueueMeta list \<Rightarrow> runtimeHostHandler" where
  "echo_handler txs =
     \<lparr> h_env =
         \<lparr> GetKeyManagerClient = Inr \<lparr> CallEnclave = (\<lambda>request kind pf. Inr request) \<rparr>,
           GetTxPool = Inr (windowed_pool txs),
           GetNodeIdentity = Inr \<lparr> NodeSigner = 0, NodeSigner_Public = [1, 2, 3] \<rparr>,
           GetLightClient = Inr \<lparr> GetLightBlock = (\<lambda>height. Inr []) \<rparr> \<rparr>,
       h_runtime =
         \<lparr> Storage = None,
           LocalStorage = \<lparr> ls_Get = (\<lambda>key. Inr []), ls_Set = (\<lambda>key v. None) \<rparr> \<rparr>,
       h_consensus =
         \<lparr> State = echo_syncer,
           Staking_GetEvents = (\<lambda>height. Inr [StakingEvent [1], StakingEvent [2]]),
           Registry_GetEvents = (\<lambda>height. Inr [RegistryEvent [3], RegistryEvent [4]]),
           RootHash_GetEvents = (\<lambda>height. Inr [RootHashEvent [5], RootHashEvent [6]]),
           Governance_GetEvents = (\<lambda>height. Inr [GovernanceEvent [7], GovernanceEvent [8]]),
           GetGenesisDocument_Height = Inr 1,
           SignAndSubmitTxWithProof = (\<lambda>signer tx. Inr (tx, [])),
           NewProveFreshnessTx = (\<lambda>blob. blob) \<rparr> \<rparr>"

subsection \<open>Channels used as one-shot signals\<close>

text \<open>
  \<^verbatim>\<open>stopCh\<close> and \<^verbatim>\<open>runtimeNotify\<close> are \<^verbatim>\<open>chan struct{}\<close> values on which nothing is
  ever sent: the only operations are \<^verbatim>\<open>close\<close> and receive. A receive on an open one
  blocks, a receive on a closed one proceeds at once; \<^verbatim>\<open>close\<close> of a closed channel
  panics.
\<close>

datatype chan = Open | Closed

definition close_chan :: "chan \<Rightarrow> chan outcome" where
  "close_chan c = (case c of Open \<Rightarrow> Returns Closed | Closed \<Rightarrow> Panic ''close of closed channel'')"

subsection \<open>The notifier: Start and Stop\<close>

text \<open>
  The fields of \<^verbatim>\<open>runtimeHostNotifier\<close> that \<^verbatim>\<open>Start\<close> and \<^verbatim>\<open>Stop\<close> use. The
  \<^verbatim>\<open>go\<close> statements of \<^verbatim>\<open>Start\<close> are recorded in \<open>n_goroutines\<close>, the list of
  watch loops started so far.
\<close>

datatype goroutine = watchPolicyUpdates | watchConsensusLightBlocks

record runtimeHostNotifier =
  n_stopCh :: chan
  n_started :: bool
  n_goroutines :: "goroutine list"

definition NewRuntimeHostNotifier :: runtimeHostNotifier where
  "NewRuntimeHostNotifier = \<lparr> n_stopCh = Open, n_started = False, n_goroutines = [] \<rparr>"

definition Start :: "runtimeHostNotifier \<Rightarrow> runtimeHostNotifier \<times> error option" where
  "Start n =
     (if n_started n then (n, None)
      else (n \<lparr> n_started := True,
                n_goroutines := n_goroutines n @ [watchPolicyUpdates, watchConsensusLightBlocks] \<rparr>,
            None))"

definition Stop :: "runtimeHostNotifier \<Rightarrow> runtimeHostNotifier outcome" where
  "Stop n =
     (case close_chan (n_stopCh n) of
        Panic msg \<Rightarrow> Panic msg
      | Returns c \<Rightarrow> Returns (n \<lparr> n_stopCh := c \<rparr>))"

text \<open>Running a second operation on the state the first one returned.\<close>

definition and_then :: "'a outcome \<Rightarrow> ('a \<Rightarrow> 'b outcome) \<Rightarrow> 'b outcome" where
  "and_then r f = (case r of Panic msg \<Rightarrow> Panic msg | Returns x \<Rightarrow> f x)"

subsection \<open>The inner policy watch loop\<close>

text \<open>
  \<^verbatim>\<open>watchKmPolicyUpdates\<close> after its subscriptions are set up: one iteration of the
  \<^verbatim>\<open>for { select { ... } }\<close> loop is a step on the three loop variables \<^verbatim>\<open>st\<close>,
  \<^verbatim>\<open>sc\<close> and \<^verbatim>\<open>vi\<close>, driven by the value the \<^verbatim>\<open>select\<close> received. A step returns
  the new variables and the requests passed to \<^verbatim>\<open>n.host.Call\<close>, in order. The result
  of \<^verbatim>\<open>Call\<close> is only logged, so it is not an input.

  The types of the key manager, registry and node packages are not among the sources;
  the records hold the fields the loop reads. Pointers that the loop dereferences are
  options.
\<close>

type_synonym Namespace = bytes
type_synonym EpochTime = "64 word"
type_synonym QuotePolicy = bytes
type_synonym SignedPolicySGX = bytes

record Status =
  st_ID :: Namespace
  st_Policy :: "SignedPolicySGX option"

record SGXConstraints =
  sgx_Policy :: "QuotePolicy option"

record VersionInfo =
  vi_Version :: Version
  vi_TEE :: bytes

datatype TEEHardware = TEEHardwareIntelSGX | TEEHardwareOther nat

record RuntimeDescriptor =
  TEEHardware :: TEEHardware
  Deployments :: "VersionInfo list"

record HostEvent =
  Started :: "bytes option"
  Updated :: "bytes option"

text \<open>
  What the loop calls outside the file: the registry query (its answer may change from
  one epoch to the next, so it is indexed by the epoch being handled),
  \<^verbatim>\<open>ActiveDeployment\<close>, \<^verbatim>\<open>VersionInfo.Equal\<close> and the CBOR codec.
\<close>

record notifier_env =
  Registry_GetRuntime :: "EpochTime \<Rightarrow> Namespace \<Rightarrow> error + RuntimeDescriptor"
  ActiveDeployment :: "RuntimeDescriptor \<Rightarrow> EpochTime \<Rightarrow> VersionInfo option"
  VersionInfo_Equal :: "VersionInfo option \<Rightarrow> VersionInfo option \<Rightarrow> bool"
  cbor_Unmarshal :: "bytes \<Rightarrow> error + SGXConstraints"
  cbor_Marshal :: "SignedPolicySGX option \<Rightarrow> bytes"

record km_state =
  st :: "Status option"
  sc :: "SGXConstraints option"
  vi :: "VersionInfo option"

definition km_init :: km_state where
  "km_init = \<lparr> st = None, sc = None, vi = None \<rparr>"

datatype km_event =
    CtxDone
  | StatusEvent Status
  | EpochEvent EpochTime
  | HostEvent HostEvent

definition updateKeyManagerPolicy :: "notifier_env \<Rightarrow> SignedPolicySGX option \<Rightarrow> Body list" where
  "updateKeyManagerPolicy env policy =
     [empty_Body \<lparr> RuntimeKeyManagerPolicyUpdateRequest :=
                     Some \<lparr> SignedPolicyRaw = cbor_Marshal env policy \<rparr> \<rparr>]"

text \<open>\<^verbatim>\<open>Policy: *policy\<close> dereferences the pointer it is given.\<close>

definition updateKeyManagerQuotePolicy :: "QuotePolicy option \<Rightarrow> Body list outcome" where
  "updateKeyManagerQuotePolicy policy =
     (case policy of
        None \<Rightarrow> Panic ''nil pointer dereference''
      | Some p \<Rightarrow>
         Returns [empty_Body \<lparr> RuntimeKeyManagerQuotePolicyUpdateRequest :=
                                 Some \<lparr> qp_Policy = p \<rparr> \<rparr>])"

definition on_status ::
  "notifier_env \<Rightarrow> Namespace \<Rightarrow> km_state \<Rightarrow> Status \<Rightarrow> (km_state \<times> Body list) outcome" where
  "on_status env kmRtID s newSt =
     (if st_ID newSt \<noteq> kmRtID then Returns (s, [])
      else Returns (s \<lparr> st := Some newSt \<rparr>, updateKeyManagerPolicy env (st_Policy newSt)))"

definition on_epoch ::
  "notifier_env \<Rightarrow> bool \<Rightarrow> Namespace \<Rightarrow> km_state \<Rightarrow> EpochTime \<Rightarrow>
     (km_state \<times> Body list) outcome" where
  "on_epoch env KeyManagerQuotePolicyUpdates kmRtID s epoch =
     (if \<not> KeyManagerQuotePolicyUpdates then Returns (s, [])
      else
        (case Registry_GetRuntime env epoch kmRtID of
           Inl err \<Rightarrow> Returns (s, [])
         | Inr dsc \<Rightarrow>
            (if TEEHardware dsc \<noteq> TEEHardwareIntelSGX then Returns (s, [])
             else
               (let newVi = ActiveDeployment env dsc epoch
                in if VersionInfo_Equal env newVi (vi s) then Returns (s, [])
                   else
                     (case newVi of
                        None \<Rightarrow> Panic ''nil pointer dereference''
                      | Some v \<Rightarrow>
                         (case cbor_Unmarshal env (vi_TEE v) of
                            Inl err \<Rightarrow> Returns (s \<lparr> vi := newVi \<rparr>, [])
                          | Inr newSc \<Rightarrow>
                             (case updateKeyManagerQuotePolicy (sgx_Policy newSc) of
                                Panic msg \<Rightarrow> Panic msg
                              | Returns calls \<Rightarrow>
                                 Returns (s \<lparr> vi := newVi, sc := Some newSc \<rparr>, calls))))))))"

definition on_host_event ::
  "notifier_env \<Rightarrow> km_state \<Rightarrow> HostEvent \<Rightarrow> (km_state \<times> Body list) outcome" where
  "on_host_event env s ev =
     (if Started ev = None \<and> Updated ev = None then Returns (s, [])
      else
        (let calls1 = (case st s of
                         Some status \<Rightarrow> updateKeyManagerPolicy env (st_Policy status)
                       | None \<Rightarrow> [])
         in case sc s of
              None \<Rightarrow> Returns (s, calls1)
            | Some c \<Rightarrow>
               (case updateKeyManagerQuotePolicy (sgx_Policy c) of
                  Panic msg \<Rightarrow> Panic msg
                | Returns calls2 \<Rightarrow> Returns (s, calls1 @ calls2))))"

text \<open>
  The loop over the sequence of values its \<^verbatim>\<open>select\<close> receives. It returns at
  \<^verbatim>\<open>ctx.Done()\<close>; when the sequence ends the loop is waiting, and the result is what it
  has done so far.
\<close>

fun km_loop ::
  "notifier_env \<Rightarrow> bool \<Rightarrow> Namespace \<Rightarrow> km_state \<Rightarrow> Body list \<Rightarrow> km_event list \<Rightarrow>
     (km_state \<times> Body list) outcome" where
  "km_loop env f kmRtID s calls [] = Returns (s, calls)"
| "km_loop env f kmRtID s calls (CtxDone # evs) = Returns (s, calls)"
| "km_loop env f kmRtID s calls (StatusEvent newSt # evs) =
     (case on_status env kmRtID s newSt of
        Panic msg \<Rightarrow> Panic msg
      | Returns (s', cs) \<Rightarrow> km_loop env f kmRtID s' (calls @ cs) evs)"
| "km_loop env f kmRtID s calls (EpochEvent epoch # evs) =
     (case on_epoch env f kmRtID s epoch of
        Panic msg \<Rightarrow> Panic msg
      | Returns (s', cs) \<Rightarrow> km_loop env f kmRtID s' (calls @ cs) evs)"
| "km_loop env f kmRtID s calls (HostEvent ev # evs) =
     (case on_host_event env s ev of
        Panic msg \<Rightarrow> Panic msg
      | Returns (s', cs) \<Rightarrow> km_loop env f kmRtID s' (calls @ cs) evs)"

definition policy_request :: "notifier_env \<Rightarrow> SignedPolicySGX option \<Rightarrow> Body" where
  "policy_request env policy =
     empty_Body \<lparr> RuntimeKeyManagerPolicyUpdateRequest :=
                    Some \<lparr> SignedPolicyRaw = cbor_Marshal env policy \<rparr> \<rparr>"

definition quote_policy_request :: "QuotePolicy \<Rightarrow> Body" where
  "quote_policy_request p =
     empty_Body \<lparr> RuntimeKeyManagerQuotePolicyUpdateRequest := Some \<lparr> qp_Policy = p \<rparr> \<rparr>"

text \<open>
  A quote policy is known: \<^verbatim>\<open>sc\<close> is set only after its policy was dereferenced, so
  whenever \<^verbatim>\<open>sc\<close> is non-nil in a running loop it carries a policy.
\<close>

definition sc_known :: "km_state \<Rightarrow> bool" where
  "sc_known s = (case sc s of None \<Rightarrow> True | Some c \<Rightarrow> sgx_Policy c \<noteq> None)"

text \<open>
  A registry and codec for examples: one key manager on SGX whose deployment carries
  the bytes it is given; empty bytes do not decode, any other bytes are the policy.
\<close>

definition example_env :: "bytes \<Rightarrow> notifier_env" where
  "example_env tee =
     \<lparr> Registry_GetRuntime =
         (\<lambda>epoch ns. Inr \<lparr> TEEHardware = TEEHardwareIntelSGX,
                            Deployments = [\<lparr> vi_Version = (1, 0, 0), vi_TEE = tee \<rparr>] \<rparr>),
       ActiveDeployment =
         (\<lambda>dsc epoch. case Deployments dsc of [] \<Rightarrow> None | d # ds \<Rightarrow> Some d),
       VersionInfo_Equal = (\<lambda>a b. a = b),
       cbor_Unmarshal =
         (\<lambda>bs. if bs = [] then Inl (ErrCollaborator ''EOF'')
                else Inr \<lparr> sgx_Policy = Some bs \<rparr>),
       cbor_Marshal = (\<lambda>policy. case policy of None \<Rightarrow> [246] | Some p \<Rightarrow> p) \<rparr>"

text \<open>The requests for the policies the loop holds.\<close>

definition known_policies :: "notifier_env \<Rightarrow> km_state \<Rightarrow> Body list" where
  "known_policies env s =
     (case st s of None \<Rightarrow> [] | Some status \<Rightarrow> [policy_request env (st_Policy status)]) @
     (case sc s of
        None \<Rightarrow> []
      | Some c \<Rightarrow> (case sgx_Policy c of None \<Rightarrow> [] | Some p \<Rightarrow> [quote_policy_request p]))"

text \<open>
  What the hosted runtime has been sent: the two kinds of policy request, and the most
  recent request of a kind in the sequence of calls (none when no request of that kind
  was sent). \<open>held_is_last_sent\<close> says that the policies the loop holds are the ones it
  sent last; \<open>loop_inv\<close> adds that held constraints carry a policy.
\<close>

definition is_policy_request :: "Body \<Rightarrow> bool" where
  "is_policy_request b = (RuntimeKeyManagerPolicyUpdateRequest b \<noteq> None)"

definition is_quote_policy_request :: "Body \<Rightarrow> bool" where
  "is_quote_policy_request b = (RuntimeKeyManagerQuotePolicyUpdateRequest b \<noteq> None)"

definition last_sent :: "(Body \<Rightarrow> bool) \<Rightarrow> Body list \<Rightarrow> Body list" where
  "last_sent P calls = (if filter P calls = [] then [] else [last (filter P calls)])"

definition held_is_last_sent :: "notifier_env \<Rightarrow> km_state \<Rightarrow> Body list \<Rightarrow> bool" where
  "held_is_last_sent env s calls =
     (last_sent is_policy_request calls =
        (case st s of None \<Rightarrow> [] | Some status \<Rightarrow> [policy_request env (st_Policy status)]) \<and>
      last_sent is_quote_policy_request calls =
        (case sc s of
           None \<Rightarrow> []
         | Some c \<Rightarrow> (case sgx_Policy c of None \<Rightarrow> [] | Some p \<Rightarrow> [quote_policy_request p])))"

definition loop_inv :: "notifier_env \<Rightarrow> km_state \<Rightarrow> Body list \<Rightarrow> bool" where
  "loop_inv env s calls = (held_is_last_sent env s calls \<and> sc_known s)"

text \<open>
  A status of the key manager \<open>[7]\<close>, and the loop variables after that status and one
  epoch in the example registry.
\<close>

definition example_status :: Status where
  "example_status = \<lparr> st_ID = [7], st_Policy = Some [5] \<rparr>"

definition example_state :: "bytes \<Rightarrow> km_state" where
  "example_state tee =
     \<lparr> st = Some example_status,
       sc = Some \<lparr> sgx_Policy = Some tee \<rparr>,
       vi = Some \<lparr> vi_Version = (1, 0, 0), vi_TEE = tee \<rparr> \<rparr>"

text \<open>The deployment and the descriptor the example registry answers with.\<close>

definition example_deployment :: "bytes \<Rightarrow> VersionInfo" where
  "example_deployment tee = \<lparr> vi_Version = (1, 0, 0), vi_TEE = tee \<rparr>"

definition example_descriptor :: "bytes \<Rightarrow> RuntimeDescriptor" where
  "example_descriptor tee =
     \<lparr> TEEHardware = TEEHardwareIntelSGX, Deployments = [example_deployment tee] \<rparr>"

subsection \<open>RuntimeHostNode\<close>

text \<open>
  Provisioned runtimes are opaque; the aggregate of \<^verbatim>\<open>multi.New\<close> holds the runtimes by
  version, and \<^verbatim>\<open>host.NewRichRuntime\<close> wraps it. \<^verbatim>\<open>cfgs\<close> is a Go map; the list is
  the order in which the \<^verbatim>\<open>range\<close> loop visits it.
\<close>

datatype HostRuntime = HostRuntime nat

record RuntimeConfig =
  cfg_Bundle :: bytes
  MessageHandler :: "runtimeHostHandler option"

record Provisioner =
  NewRuntime :: "RuntimeConfig \<Rightarrow> error + HostRuntime"

record Aggregate =
  agg_ID :: Namespace
  agg_Runtimes :: "(Version \<times> HostRuntime) list"

datatype RichRuntime = NewRichRuntime Aggregate

text \<open>
  The factory with what \<^verbatim>\<open>ProvisionHostedRuntime\<close> obtains through it: the runtime's
  \<^verbatim>\<open>Host\<close> and \<^verbatim>\<open>ID\<close>, the handler and the notifier. \<^verbatim>\<open>multi.New\<close> is a package
  function outside the sources and is carried along in the same record.
\<close>

record RuntimeHostHandlerFactory =
  GetRuntime_Host :: "error + (Version \<times> RuntimeConfig) list \<times> Provisioner"
  GetRuntime_ID :: Namespace
  NewRuntimeHostHandler :: runtimeHostHandler
  NewRuntimeHostNotifier_for :: "Aggregate \<Rightarrow> runtimeHostNotifier"
  multi_New :: "Namespace \<Rightarrow> (Version \<times> HostRuntime) list \<Rightarrow> error + Aggregate"

record RuntimeHostNode =
  node_agg :: "Aggregate option"
  node_runtime :: "RichRuntime option"
  node_notifier :: "runtimeHostNotifier option"
  runtimeNotify :: chan

definition NewRuntimeHostNode :: RuntimeHostNode where
  "NewRuntimeHostNode =
     \<lparr> node_agg = None, node_runtime = None, node_notifier = None, runtimeNotify = Open \<rparr>"

text \<open>\<^verbatim>\<open>rts[version] = ...\<close>: a later entry for the same version replaces the earlier.\<close>

definition rts_set ::
  "(Version \<times> HostRuntime) list \<Rightarrow> Version \<Rightarrow> HostRuntime \<Rightarrow> (Version \<times> HostRuntime) list" where
  "rts_set rts v rt = filter (\<lambda>e. fst e \<noteq> v) rts @ [(v, rt)]"

fun provision_all ::
  "Provisioner \<Rightarrow> runtimeHostHandler \<Rightarrow> (Version \<times> HostRuntime) list \<Rightarrow>
     (Version \<times> RuntimeConfig) list \<Rightarrow> error + (Version \<times> HostRuntime) list" where
  "provision_all provisioner msgHandler rts [] = Inr rts"
| "provision_all provisioner msgHandler rts ((version, cfg) # cfgs) =
     (case NewRuntime provisioner (cfg \<lparr> MessageHandler := Some msgHandler \<rparr>) of
        Inl err \<Rightarrow> Inl (ErrProvisionVersion version err)
      | Inr rt \<Rightarrow> provision_all provisioner msgHandler (rts_set rts version rt) cfgs)"

text \<open>
  Everything \<^verbatim>\<open>ProvisionHostedRuntime\<close> does before it takes the lock: the aggregate, or
  the error it returns early.
\<close>

definition build_aggregate :: "RuntimeHostHandlerFactory \<Rightarrow> error + Aggregate" where
  "build_aggregate factory =
     (case GetRuntime_Host factory of
        Inl err \<Rightarrow> Inl (ErrWrap ''failed to get runtime host'' err)
      | Inr (cfgs, provisioner) \<Rightarrow>
         (case provision_all provisioner (NewRuntimeHostHandler factory) [] cfgs of
            Inl err \<Rightarrow> Inl err
          | Inr rts \<Rightarrow>
             (case multi_New factory (GetRuntime_ID factory) rts of
                Inl err \<Rightarrow> Inl (ErrWrap ''failed to provision aggregate runtime'' err)
              | Inr agg \<Rightarrow> Inr agg)))"

type_synonym provisioned = "RichRuntime option \<times> runtimeHostNotifier option \<times> error option"

definition ProvisionHostedRuntime ::
  "RuntimeHostHandlerFactory \<Rightarrow> RuntimeHostNode \<Rightarrow> (provisioned \<times> RuntimeHostNode) outcome" where
  "ProvisionHostedRuntime factory n =
     (case build_aggregate factory of
        Inl err \<Rightarrow> Returns ((None, None, Some err), n)
      | Inr agg \<Rightarrow>
         (let notifier = NewRuntimeHostNotifier_for factory agg;
              rr = NewRichRuntime agg;
              n' = n \<lparr> node_agg := Some agg, node_runtime := Some rr,
                       node_notifier := Some notifier \<rparr>
          in case close_chan (runtimeNotify n') of
               Panic msg \<Rightarrow> Panic msg
             | Returns c \<Rightarrow> Returns ((Some rr, Some notifier, None), n' \<lparr> runtimeNotify := c \<rparr>)))"

definition GetHostedRuntime :: "RuntimeHostNode \<Rightarrow> RichRuntime option" where
  "GetHostedRuntime n = node_runtime n"

text \<open>
  A context is live or done; \<^verbatim>\<open>ctx.Err()\<close> of a done context is the error it carries.

  \<^verbatim>\<open>WaitHostedRuntime\<close> is a \<^verbatim>\<open>select\<close> over \<^verbatim>\<open>ctx.Done()\<close> and \<^verbatim>\<open>runtimeNotify\<close>.
  Go takes a case that can proceed, any of them when several can, and blocks while none
  can. The model is the set of results the call may return in a given state: one element
  per case that can proceed, and the empty set while the call blocks.
\<close>

datatype Context = ctx_Live | ctx_Done error

definition WaitHostedRuntime ::
  "Context \<Rightarrow> RuntimeHostNode \<Rightarrow> (RichRuntime option \<times> error option) set" where
  "WaitHostedRuntime ctx n =
     (case ctx of ctx_Live \<Rightarrow> {} | ctx_Done err \<Rightarrow> {(None, Some err)}) \<union>
     (case runtimeNotify n of Open \<Rightarrow> {} | Closed \<Rightarrow> {(GetHostedRuntime n, None)})"

text \<open>A factory for examples: two versions, a provisioner and an aggregate that succeed.\<close>

definition example_factory :: RuntimeHostHandlerFactory where
  "example_factory =
     \<lparr> GetRuntime_Host =
         Inr ([((1, 0, 0), \<lparr> cfg_Bundle = [1], MessageHandler = None \<rparr>),
               ((2, 0, 0), \<lparr> cfg_Bundle = [2], MessageHandler = None \<rparr>)],
              \<lparr> NewRuntime = (\<lambda>cfg. Inr (HostRuntime (length (cfg_Bundle cfg)))) \<rparr>),
       GetRuntime_ID = [7],
       NewRuntimeHostHandler = echo_handler [],
       NewRuntimeHostNotifier_for = (\<lambda>agg. NewRuntimeHostNotifier),
       multi_New = (\<lambda>ns rts. Inr \<lparr> agg_ID = ns, agg_Runtimes = rts \<rparr>) \<rparr>"

text \<open>The aggregate that factory builds, and the node after provisioning it once.\<close>

definition example_aggregate :: Aggregate where
  "example_aggregate =
     \<lparr> agg_ID = [7],
       agg_Runtimes = [((1, 0, 0), HostRuntime 1), ((2, 0, 0), HostRuntime 1)] \<rparr>"

definition provisioned_node :: RuntimeHostNode where
  "provisioned_node =
     \<lparr> node_agg = Some example_aggregate,
       node_runtime = Some (NewRichRuntime example_aggregate),
       node_notifier = Some NewRuntimeHostNotifier,
       runtimeNotify = Closed \<rparr>"

section \<open>Properties of the request handler\<close>

subsection \<open>The switch of Handle\<close>

text \<open>
  The cases of the \<^verbatim>\<open>switch\<close>: the first populated host request decides, and the
  default case needs all ten to be nil.
\<close>

lemma request_cases [case_names RPCCall StorageSync LocalStorageGet LocalStorageSet
    FetchConsensusBlock FetchConsensusEvents FetchGenesisHeight FetchTxBatch ProveFreshness
    HostIdentity Unsupported]:
  obtains
    q where "HostRPCCallRequest rq = Some q"
  | q where "HostRPCCallRequest rq = None" "HostStorageSyncRequest rq = Some q"
  | q where "HostRPCCallRequest rq = None" "HostStorageSyncRequest rq = None"
      "HostLocalStorageGetRequest rq = Some q"
  | q where "HostRPCCallRequest rq = None" "HostStorageSyncRequest rq = None"
      "HostLocalStorageGetRequest rq = None" "HostLocalStorageSetRequest rq = Some q"
  | q where "HostRPCCallRequest rq = None" "HostStorageSyncRequest rq = None"
      "HostLocalStorageGetRequest rq = None" "HostLocalStorageSetRequest rq = None"
      "HostFetchConsensusBlockRequest rq = Some q"
  | q where "HostRPCCallRequest rq = None" "HostStorageSyncRequest rq = None"
      "HostLocalStorageGetRequest rq = None" "HostLocalStorageSetRequest rq = None"
      "HostFetchConsensusBlockRequest rq = None" "HostFetchConsensusEventsRequest rq = Some q"
  | q where "HostRPCCallRequest rq = None" "HostStorageSyncRequest rq = None"
      "HostLocalStorageGetRequest rq = None" "HostLocalStorageSetRequest rq = None"
      "HostFetchConsensusBlockRequest rq = None" "HostFetchConsensusEventsRequest rq = None"
      "HostFetchGenesisHeightRequest rq = Some q"
  | q where "HostRPCCallRequest rq = None" "HostStorageSyncRequest rq = None"
      "HostLocalStorageGetRequest rq = None" "HostLocalStorageSetRequest rq = None"
      "HostFetchConsensusBlockRequest rq = None" "HostFetchConsensusEventsRequest rq = None"
      "HostFetchGenesisHeightRequest rq = None" "HostFetchTxBatchRequest rq = Some q"
  | q where "HostRPCCallRequest rq = None" "HostStorageSyncRequest rq = None"
      "HostLocalStorageGetRequest rq = None" "HostLocalStorageSetRequest rq = None"
      "HostFetchConsensusBlockRequest rq = None" "HostFetchConsensusEventsRequest rq = None"
      "HostFetchGenesisHeightRequest rq = None" "HostFetchTxBatchRequest rq = None"
      "HostProveFreshnessRequest rq = Some q"
  | q where "HostRPCCallRequest rq = None" "HostStorageSyncRequest rq = None"
      "HostLocalStorageGetRequest rq = None" "HostLocalStorageSetRequest rq = None"
      "HostFetchConsensusBlockRequest rq = None" "HostFetchConsensusEventsRequest rq = None"
      "HostFetchGenesisHeightRequest rq = None" "HostFetchTxBatchRequest rq = None"
      "HostProveFreshnessRequest rq = None" "HostIdentityRequest rq = Some q"
  | "HostRPCCallRequest rq = None" "HostStorageSyncRequest rq = None"
      "HostLocalStorageGetRequest rq = None" "HostLocalStorageSetRequest rq = None"
      "HostFetchConsensusBlockRequest rq = None" "HostFetchConsensusEventsRequest rq = None"
      "HostFetchGenesisHeightRequest rq = None" "HostFetchTxBatchRequest rq = None"
      "HostProveFreshnessRequest rq = None" "HostIdentityRequest rq = None"
proof -
  show ?thesis
  proof (cases "HostRPCCallRequest rq")
    case (Some q)
    with that(1) show ?thesis by blast
  next
    case n1: None
    show ?thesis
    proof (cases "HostStorageSyncRequest rq")
      case (Some q)
      with n1 that(2) show ?thesis by blast
    next
      case n2: None
      show ?thesis
      proof (cases "HostLocalStorageGetRequest rq")
        case (Some q)
        with n1 n2 that(3) show ?thesis by blast
      next
        case n3: None
        show ?thesis
        proof (cases "HostLocalStorageSetRequest rq")
          case (Some q)
          with n1 n2 n3 that(4) show ?thesis by blast
        next
          case n4: None
          show ?thesis
          proof (cases "HostFetchConsensusBlockRequest rq")
            case (Some q)
            with n1 n2 n3 n4 that(5) show ?thesis by blast
          next
            case n5: None
            show ?thesis
            proof (cases "HostFetchConsensusEventsRequest rq")
              case (Some q)
              with n1 n2 n3 n4 n5 that(6) show ?thesis by blast
            next
              case n6: None
              show ?thesis
              proof (cases "HostFetchGenesisHeightRequest rq")
                case (Some q)
                with n1 n2 n3 n4 n5 n6 that(7) show ?thesis by blast
              next
                case n7: None
                show ?thesis
                proof (cases "HostFetchTxBatchRequest rq")
                  case (Some q)
                  with n1 n2 n3 n4 n5 n6 n7 that(8) show ?thesis by blast
                next
                  case n8: None
                  show ?thesis
                  proof (cases "HostProveFreshnessRequest rq")
                    case (Some q)
                    with n1 n2 n3 n4 n5 n6 n7 n8 that(9) show ?thesis by blast
                  next
                    case n9: None
                    show ?thesis
                    proof (cases "HostIdentityRequest rq")
                      case (Some q)
                      with n1 n2 n3 n4 n5 n6 n7 n8 n9 that(10) show ?thesis by blast
                    next
                      case n10: None
                      from n1 n2 n3 n4 n5 n6 n7 n8 n9 n10 show ?thesis by (rule that(11))
                    qed
                  qed
                qed
              qed
            qed
          qed
        qed
      qed
    qed
  qed
qed

lemma Handle_none:
  "request_variants rq = [] \<Longrightarrow> Handle h rq = (None, Some errMethodNotSupported)"
  by (cases rq rule: request_cases) (simp_all add: request_variants_def Handle_def dispatch_def)

lemma dispatch_first: "dispatch h (first_request rq) = dispatch h rq"
  by (cases rq rule: request_cases)
     (simp_all add: first_request_def request_variants_def only_def dispatch_def)

lemma first_request_variants: "request_variants (first_request rq) = take 1 (request_variants rq)"
  by (cases rq rule: request_cases)
     (simp_all add: first_request_def request_variants_def only_def)


lemma handleHostRPCCall_ok: "handleHostRPCCall h q = (r, None) \<Longrightarrow> r \<noteq> None"
  by (auto simp: handleHostRPCCall_def split: if_splits sum.splits)

lemma handleHostStorageSync_ok: "handleHostStorageSync h q = (r, None) \<Longrightarrow> r \<noteq> None"
  by (auto simp: handleHostStorageSync_def split: option.splits sum.splits)

lemma handleHostLocalStorageGet_ok: "handleHostLocalStorageGet h q = (r, None) \<Longrightarrow> r \<noteq> None"
  by (auto simp: handleHostLocalStorageGet_def split: sum.splits)

lemma handleHostLocalStorageSet_ok: "handleHostLocalStorageSet h q = (r, None) \<Longrightarrow> r \<noteq> None"
  by (auto simp: handleHostLocalStorageSet_def split: option.splits)

lemma handleHostFetchConsensusBlock_ok:
  "handleHostFetchConsensusBlock h q = (r, None) \<Longrightarrow> r \<noteq> None"
  by (auto simp: handleHostFetchConsensusBlock_def split: sum.splits)

lemma handleHostFetchConsensusEvents_ok:
  "handleHostFetchConsensusEvents h q = (r, None) \<Longrightarrow> r \<noteq> None"
  by (auto simp: handleHostFetchConsensusEvents_def split: EventKind.splits sum.splits)

lemma handleHostFetchGenesisHeight_ok:
  "handleHostFetchGenesisHeight h q = (r, None) \<Longrightarrow> r \<noteq> None"
  by (auto simp: handleHostFetchGenesisHeight_def split: sum.splits)

lemma handleHostFetchTxBatch_ok: "handleHostFetchTxBatch h q = (r, None) \<Longrightarrow> r \<noteq> None"
  by (auto simp: handleHostFetchTxBatch_def split: sum.splits)

lemma handleHostProveFreshness_ok: "handleHostProveFreshness h q = (r, None) \<Longrightarrow> r \<noteq> None"
  by (auto simp: handleHostProveFreshness_def split: sum.splits prod.splits)

lemma handleHostIdentity_ok: "handleHostIdentity h q = (r, None) \<Longrightarrow> r \<noteq> None"
  by (auto simp: handleHostIdentity_def split: sum.splits)

lemmas handlers_ok =
  handleHostRPCCall_ok handleHostStorageSync_ok handleHostLocalStorageGet_ok
  handleHostLocalStorageSet_ok handleHostFetchConsensusBlock_ok
  handleHostFetchConsensusEvents_ok handleHostFetchGenesisHeight_ok
  handleHostFetchTxBatch_ok handleHostProveFreshness_ok handleHostIdentity_ok

lemma Handle_not_both: "fst (Handle h rq) = None \<or> snd (Handle h rq) = None"
  by (simp add: Handle_def split: prod.splits)

lemma Handle_Some_dispatch:
  "fst (Handle h rq) = Some rsp \<Longrightarrow> dispatch h rq = (rsp, None)"
  by (auto simp: Handle_def split: prod.splits if_splits)

lemma dispatch_variants:
  "dispatch h rq = (rsp, None) \<Longrightarrow>
     request_variants rq \<noteq> [] \<and> response_variants rsp = take 1 (request_variants rq)"
  by (cases rq rule: request_cases)
     (auto simp: dispatch_def request_variants_def response_variants_def empty_Body_def
        split: prod.splits dest: handlers_ok)

subsection \<open>Unsupported requests\<close>

text \<open>
  C1 (as amended). An envelope with no host request populated gets the
  \<^verbatim>\<open>errMethodNotSupported\<close> sentinel and no response envelope. An envelope with several
  host requests populated is not rejected: \<^verbatim>\<open>Handle\<close> answers it exactly as it answers
  the envelope that keeps only the first populated request in the order of the
  \<^verbatim>\<open>switch\<close> cases.
\<close>

theorem Handle_unsupported_or_first:
  "(request_variants rq = [] \<longrightarrow> Handle h rq = (None, Some errMethodNotSupported)) \<and>
   Handle h (first_request rq) = Handle h rq \<and>
   request_variants (first_request rq) = take 1 (request_variants rq)"
proof -
  have "Handle h (first_request rq) = Handle h rq"
    by (simp add: Handle_def dispatch_first)
  then show ?thesis
    using Handle_none [of rq h] first_request_variants [of rq] by simp
qed

text \<open>
  The hypothesis of C1 at an envelope that carries only a runtime request, which none of
  the cases of \<^verbatim>\<open>Handle\<close> matches.
\<close>

theorem Handle_unsupported_witness:
  "request_variants (empty_Body \<lparr> RuntimeKeyManagerPolicyUpdateRequest := Some \<lparr> SignedPolicyRaw = [] \<rparr> \<rparr>) = [] \<and>
   Handle (echo_handler [])
     (empty_Body \<lparr> RuntimeKeyManagerPolicyUpdateRequest := Some \<lparr> SignedPolicyRaw = [] \<rparr> \<rparr>) =
     (None, Some errMethodNotSupported)"
  using Handle_unsupported_or_first
    [of "empty_Body \<lparr> RuntimeKeyManagerPolicyUpdateRequest := Some \<lparr> SignedPolicyRaw = [] \<rparr> \<rparr>"
        "echo_handler []"]
  by (simp add: request_variants_def empty_Body_def)

text \<open>
  C1 as stated fails: with the genesis-height request and the identity request both
  populated, \<^verbatim>\<open>Handle\<close> serves the genesis-height request and returns a response.
\<close>

theorem Handle_two_variants_served:
  "length (request_variants
     (empty_Body \<lparr> HostFetchGenesisHeightRequest := Some (), HostIdentityRequest := Some () \<rparr>)) = 2 \<and>
   Handle (echo_handler [])
     (empty_Body \<lparr> HostFetchGenesisHeightRequest := Some (), HostIdentityRequest := Some () \<rparr>) =
     (Some (empty_Body \<lparr> HostFetchGenesisHeightResponse := Some \<lparr> gen_Height = 1 \<rparr> \<rparr>), None)"
  by (simp add: request_variants_def empty_Body_def Handle_def dispatch_def
      handleHostFetchGenesisHeight_def echo_handler_def)

subsection \<open>Response or error, one response variant\<close>

text \<open>
  C8. \<^verbatim>\<open>Handle\<close> never returns a response envelope together with an error, and a
  response envelope it returns has at most one host response populated: the one that
  belongs to the request the \<^verbatim>\<open>switch\<close> dispatched, the first populated one.
\<close>

theorem Handle_response_xor_error:
  "\<not> (fst (Handle h rq) \<noteq> None \<and> snd (Handle h rq) \<noteq> None) \<and>
   (\<forall>rsp. fst (Handle h rq) = Some rsp \<longrightarrow>
      length (response_variants rsp) \<le> 1 \<and>
      response_variants rsp = take 1 (request_variants rq))"
proof -
  have one: "\<not> (fst (Handle h rq) \<noteq> None \<and> snd (Handle h rq) \<noteq> None)"
    using Handle_not_both [of h rq] by auto
  have two: "length (response_variants rsp) \<le> 1 \<and>
      response_variants rsp = take 1 (request_variants rq)"
    if "fst (Handle h rq) = Some rsp" for rsp
  proof -
    from that have "dispatch h rq = (rsp, None)" by (rule Handle_Some_dispatch)
    then have "response_variants rsp = take 1 (request_variants rq)"
      by (simp add: dispatch_variants)
    then show ?thesis by simp
  qed
  from one two show ?thesis by blast
qed

text \<open>C8 at an identity request to the echo handler.\<close>

theorem Handle_response_xor_error_witness:
  "fst (Handle (echo_handler []) (empty_Body \<lparr> HostIdentityRequest := Some () \<rparr>)) =
     Some (empty_Body \<lparr> HostIdentityResponse := Some \<lparr> NodeID = [1, 2, 3] \<rparr> \<rparr>) \<and>
   snd (Handle (echo_handler []) (empty_Body \<lparr> HostIdentityRequest := Some () \<rparr>)) = None \<and>
   response_variants (empty_Body \<lparr> HostIdentityResponse := Some \<lparr> NodeID = [1, 2, 3] \<rparr> \<rparr>) =
     [HostIdentity]"
  using Handle_response_xor_error
    [of "echo_handler []" "empty_Body \<lparr> HostIdentityRequest := Some () \<rparr>"]
  by (simp add: request_variants_def empty_Body_def Handle_def dispatch_def
      handleHostIdentity_def echo_handler_def)

subsection \<open>Consensus events\<close>

text \<open>Each loop appends, in order, one event with a single field set.\<close>

lemma append_staking_map:
  "append_staking evs sevs =
     evs @ map (\<lambda>sev. \<lparr> Staking = Some sev, Registry = None, RootHash = None, Governance = None \<rparr>) sevs"
  by (induction sevs arbitrary: evs) (simp_all add: empty_Event_def)

lemma append_registry_map:
  "append_registry evs revs =
     evs @ map (\<lambda>ev. \<lparr> Staking = None, Registry = Some ev, RootHash = None, Governance = None \<rparr>) revs"
  by (induction revs arbitrary: evs) (simp_all add: empty_Event_def)

lemma append_roothash_map:
  "append_roothash evs revs =
     evs @ map (\<lambda>ev. \<lparr> Staking = None, Registry = None, RootHash = Some ev, Governance = None \<rparr>) revs"
  by (induction revs arbitrary: evs) (simp_all add: empty_Event_def)

lemma append_governance_map:
  "append_governance evs gevs =
     evs @ map (\<lambda>ev. \<lparr> Staking = None, Registry = None, RootHash = None, Governance = Some ev \<rparr>) gevs"
  by (induction gevs arbitrary: evs) (simp_all add: empty_Event_def)

text \<open>
  C6. For each of the four event kinds, when the backend of that kind returns its
  events, the handler returns one \<^verbatim>\<open>Event\<close> per backend event, in the backend's order,
  each with only the field of the requested kind populated; for any other kind it
  returns \<^verbatim>\<open>errMethodNotSupported\<close>.
\<close>

theorem fetch_consensus_events_tagged:
  "(Staking_GetEvents (h_consensus h) (sint height) = Inr sevs \<longrightarrow>
      handleHostFetchConsensusEvents h \<lparr> evs_Height = height, evs_Kind = EventKindStaking \<rparr> =
        (Some \<lparr> Events = map (\<lambda>ev. \<lparr> Staking = Some ev, Registry = None, RootHash = None,
                                     Governance = None \<rparr>) sevs \<rparr>, None)) \<and>
   (Registry_GetEvents (h_consensus h) (sint height) = Inr revs \<longrightarrow>
      handleHostFetchConsensusEvents h \<lparr> evs_Height = height, evs_Kind = EventKindRegistry \<rparr> =
        (Some \<lparr> Events = map (\<lambda>ev. \<lparr> Staking = None, Registry = Some ev, RootHash = None,
                                     Governance = None \<rparr>) revs \<rparr>, None)) \<and>
   (RootHash_GetEvents (h_consensus h) (sint height) = Inr rhevs \<longrightarrow>
      handleHostFetchConsensusEvents h \<lparr> evs_Height = height, evs_Kind = EventKindRootHash \<rparr> =
        (Some \<lparr> Events = map (\<lambda>ev. \<lparr> Staking = None, Registry = None, RootHash = Some ev,
                                     Governance = None \<rparr>) rhevs \<rparr>, None)) \<and>
   (Governance_GetEvents (h_consensus h) (sint height) = Inr gevs \<longrightarrow>
      handleHostFetchConsensusEvents h \<lparr> evs_Height = height, evs_Kind = EventKindGovernance \<rparr> =
        (Some \<lparr> Events = map (\<lambda>ev. \<lparr> Staking = None, Registry = None, RootHash = None,
                                     Governance = Some ev \<rparr>) gevs \<rparr>, None)) \<and>
   handleHostFetchConsensusEvents h \<lparr> evs_Height = height, evs_Kind = EventKindOther k \<rparr> =
     (None, Some errMethodNotSupported)"
  by (simp add: handleHostFetchConsensusEvents_def append_staking_map append_registry_map
      append_roothash_map append_governance_map)

text \<open>C6 at the echo handler, whose four backends hold two events each.\<close>

theorem fetch_consensus_events_tagged_witness:
  "handleHostFetchConsensusEvents (echo_handler []) \<lparr> evs_Height = 9, evs_Kind = EventKindStaking \<rparr> =
     (Some \<lparr> Events =
        [\<lparr> Staking = Some (StakingEvent [1]), Registry = None, RootHash = None, Governance = None \<rparr>,
         \<lparr> Staking = Some (StakingEvent [2]), Registry = None, RootHash = None, Governance = None \<rparr>] \<rparr>,
      None) \<and>
   handleHostFetchConsensusEvents (echo_handler []) \<lparr> evs_Height = 9, evs_Kind = EventKindRegistry \<rparr> =
     (Some \<lparr> Events =
        [\<lparr> Staking = None, Registry = Some (RegistryEvent [3]), RootHash = None, Governance = None \<rparr>,
         \<lparr> Staking = None, Registry = Some (RegistryEvent [4]), RootHash = None, Governance = None \<rparr>] \<rparr>,
      None) \<and>
   handleHostFetchConsensusEvents (echo_handler []) \<lparr> evs_Height = 9, evs_Kind = EventKindRootHash \<rparr> =
     (Some \<lparr> Events =
        [\<lparr> Staking = None, Registry = None, RootHash = Some (RootHashEvent [5]), Governance = None \<rparr>,
         \<lparr> Staking = None, Registry = None, RootHash = Some (RootHashEvent [6]), Governance = None \<rparr>] \<rparr>,
      None) \<and>
   handleHostFetchConsensusEvents (echo_handler []) \<lparr> evs_Height = 9, evs_Kind = EventKindGovernance \<rparr> =
     (Some \<lparr> Events =
        [\<lparr> Staking = None, Registry = None, RootHash = None, Governance = Some (GovernanceEvent [7]) \<rparr>,
         \<lparr> Staking = None, Registry = None, RootHash = None, Governance = Some (GovernanceEvent [8]) \<rparr>] \<rparr>,
      None)"
  using fetch_consensus_events_tagged
    [of "echo_handler []" 9 "[StakingEvent [1], StakingEvent [2]]"
        "[RegistryEvent [3], RegistryEvent [4]]" "[RootHashEvent [5], RootHashEvent [6]]"
        "[GovernanceEvent [7], GovernanceEvent [8]]"]
  by (simp add: echo_handler_def)

subsection \<open>Transaction batches\<close>

lemma append_raw_map: "append_raw raw batch = raw @ map Raw batch"
  by (induction batch arbitrary: raw) simp_all

text \<open>
  C9. When the environment provides a transaction pool, the handler returns the raw
  bytes of exactly the transactions \<^verbatim>\<open>GetSchedulingExtra\<close> yields for the request's
  offset and limit, in that order. With the windowed pool of the specification over
  ten transactions, offset 5 and limit 3 give the transactions at positions 5, 6 and 7.
\<close>

theorem fetch_tx_batch_window:
  "(GetTxPool (h_env h) = Inr txPool \<longrightarrow>
      handleHostFetchTxBatch h rq =
        (Some \<lparr> Batch = map Raw (GetSchedulingExtra txPool (txb_Offset rq) (txb_Limit rq)) \<rparr>,
         None)) \<and>
   (GetTxPool (h_env h) = Inr (windowed_pool txs) \<and> length txs = 10 \<longrightarrow>
      handleHostFetchTxBatch h \<lparr> txb_Offset = 5, txb_Limit = 3 \<rparr> =
        (Some \<lparr> Batch = [Raw (txs ! 5), Raw (txs ! 6), Raw (txs ! 7)] \<rparr>, None))"
proof -
  have window: "take 3 (drop 5 txs) = [txs ! 5, txs ! 6, txs ! 7]" if "length txs = 10"
  proof -
    have "take 3 (drop 5 txs) = map (\<lambda>i. drop 5 txs ! i) [0..<3]"
      using that by (intro nth_equalityI) auto
    also have "[0..<3] = [0, 1, 2::nat]"
      by (simp add: upt_rec)
    finally show ?thesis
      using that by simp
  qed
  show ?thesis
    by (auto simp: handleHostFetchTxBatch_def append_raw_map windowed_pool_def window)
qed

text \<open>C9 at a pool of ten transactions whose raw bytes are their positions.\<close>

theorem fetch_tx_batch_window_witness:
  "handleHostFetchTxBatch
     (echo_handler [\<lparr> Raw = [0] \<rparr>, \<lparr> Raw = [1] \<rparr>, \<lparr> Raw = [2] \<rparr>, \<lparr> Raw = [3] \<rparr>, \<lparr> Raw = [4] \<rparr>,
                    \<lparr> Raw = [5] \<rparr>, \<lparr> Raw = [6] \<rparr>, \<lparr> Raw = [7] \<rparr>, \<lparr> Raw = [8] \<rparr>, \<lparr> Raw = [9] \<rparr>])
     \<lparr> txb_Offset = 5, txb_Limit = 3 \<rparr> =
     (Some \<lparr> Batch = [[5], [6], [7]] \<rparr>, None)"
  using fetch_tx_batch_window
    [of "echo_handler [\<lparr> Raw = [0] \<rparr>, \<lparr> Raw = [1] \<rparr>, \<lparr> Raw = [2] \<rparr>, \<lparr> Raw = [3] \<rparr>, \<lparr> Raw = [4] \<rparr>,
                    \<lparr> Raw = [5] \<rparr>, \<lparr> Raw = [6] \<rparr>, \<lparr> Raw = [7] \<rparr>, \<lparr> Raw = [8] \<rparr>, \<lparr> Raw = [9] \<rparr>]"
        "windowed_pool [\<lparr> Raw = [0] \<rparr>, \<lparr> Raw = [1] \<rparr>, \<lparr> Raw = [2] \<rparr>, \<lparr> Raw = [3] \<rparr>, \<lparr> Raw = [4] \<rparr>,
                    \<lparr> Raw = [5] \<rparr>, \<lparr> Raw = [6] \<rparr>, \<lparr> Raw = [7] \<rparr>, \<lparr> Raw = [8] \<rparr>, \<lparr> Raw = [9] \<rparr>]"
        "\<lparr> txb_Offset = 5, txb_Limit = 3 \<rparr>"
        "[\<lparr> Raw = [0] \<rparr>, \<lparr> Raw = [1] \<rparr>, \<lparr> Raw = [2] \<rparr>, \<lparr> Raw = [3] \<rparr>, \<lparr> Raw = [4] \<rparr>,
                    \<lparr> Raw = [5] \<rparr>, \<lparr> Raw = [6] \<rparr>, \<lparr> Raw = [7] \<rparr>, \<lparr> Raw = [8] \<rparr>, \<lparr> Raw = [9] \<rparr>]"]
  by (simp add: echo_handler_def windowed_pool_def)

section \<open>Properties of the notifier's lifecycle\<close>

lemma Start_twice: "Start (fst (Start n)) = (fst (Start n), None)"
  by (simp add: Start_def)

lemma Stop_open: "n_stopCh n = Open \<Longrightarrow> Stop n = Returns (n \<lparr> n_stopCh := Closed \<rparr>)"
  by (simp add: Stop_def close_chan_def)

lemma Stop_closed: "n_stopCh n = Closed \<Longrightarrow> Stop n = Panic ''close of closed channel''"
  by (simp add: Stop_def close_chan_def)

text \<open>
  C2 (as amended). \<^verbatim>\<open>Start\<close> is idempotent: it returns no error, a second call
  after a first changes nothing, and the two watch loops are started once. \<^verbatim>\<open>Stop\<close>
  is not: a call while the stop channel is open closes it, and a call when it is already
  closed panics, so \<^verbatim>\<open>Stop\<close> may be called once.
\<close>

theorem Start_idempotent_Stop_once:
  "snd (Start n) = None \<and>
   Start (fst (Start n)) = (fst (Start n), None) \<and>
   n_goroutines (fst (Start NewRuntimeHostNotifier)) =
     [watchPolicyUpdates, watchConsensusLightBlocks] \<and>
   (n_stopCh n = Open \<longrightarrow> Stop n = Returns (n \<lparr> n_stopCh := Closed \<rparr>)) \<and>
   (n_stopCh n = Closed \<longrightarrow> Stop n = Panic ''close of closed channel'')"
  using Start_twice [of n] Stop_open [of n] Stop_closed [of n]
  by (simp add: Start_def NewRuntimeHostNotifier_def)

text \<open>C2 at a new notifier (stop channel open) and at the same notifier once stopped.\<close>

theorem Start_idempotent_Stop_once_witness:
  "n_stopCh NewRuntimeHostNotifier = Open \<and>
   Stop NewRuntimeHostNotifier = Returns (NewRuntimeHostNotifier \<lparr> n_stopCh := Closed \<rparr>) \<and>
   n_stopCh (NewRuntimeHostNotifier \<lparr> n_stopCh := Closed \<rparr>) = Closed \<and>
   Stop (NewRuntimeHostNotifier \<lparr> n_stopCh := Closed \<rparr>) = Panic ''close of closed channel''"
  using Start_idempotent_Stop_once [of NewRuntimeHostNotifier]
    Start_idempotent_Stop_once [of "NewRuntimeHostNotifier \<lparr> n_stopCh := Closed \<rparr>"]
  by (simp add: NewRuntimeHostNotifier_def)

text \<open>
  C2 as stated fails: on a new notifier the second of two calls of \<^verbatim>\<open>Stop\<close> panics.
\<close>

theorem Stop_twice_panics:
  "and_then (Stop NewRuntimeHostNotifier) Stop = Panic ''close of closed channel''"
  by (simp add: and_then_def Stop_def close_chan_def NewRuntimeHostNotifier_def)

section \<open>Properties of RuntimeHostNode\<close>

lemma build_example: "build_aggregate example_factory = Inr example_aggregate"
  by (simp add: build_aggregate_def example_factory_def example_aggregate_def rts_set_def)

lemma provision_example:
  "ProvisionHostedRuntime example_factory NewRuntimeHostNode =
     Returns ((Some (NewRichRuntime example_aggregate), Some NewRuntimeHostNotifier, None),
              provisioned_node)"
  by (simp add: ProvisionHostedRuntime_def build_example Let_def close_chan_def
      NewRuntimeHostNode_def provisioned_node_def)
     (simp add: example_factory_def)

lemma provision_closed:
  "runtimeNotify n = Closed \<Longrightarrow> build_aggregate factory = Inr agg \<Longrightarrow>
     ProvisionHostedRuntime factory n = Panic ''close of closed channel''"
  by (simp add: ProvisionHostedRuntime_def Let_def close_chan_def)

lemma provision_success:
  "ProvisionHostedRuntime factory n = Returns ((Some rr, nt, err), n') \<Longrightarrow>
     runtimeNotify n' = Closed \<and> node_runtime n' = Some rr"
  by (auto simp: ProvisionHostedRuntime_def Let_def close_chan_def
      split: sum.splits chan.splits)

lemma provision_open:
  "runtimeNotify n = Open \<Longrightarrow> \<exists>r. ProvisionHostedRuntime factory n = Returns r"
  by (simp add: ProvisionHostedRuntime_def Let_def close_chan_def split: sum.splits)

text \<open>
  C10. Once a call of \<^verbatim>\<open>ProvisionHostedRuntime\<close> has returned a runtime, any later call
  on the node it left that gets as far as installing an aggregate panics at
  \<^verbatim>\<open>close(n.runtimeNotify)\<close>; on a new node the call does not panic.
\<close>

theorem second_provision_panics:
  "(ProvisionHostedRuntime factory n = Returns ((Some rr, nt, err), n') \<and>
    build_aggregate factory' = Inr agg' \<longrightarrow>
      ProvisionHostedRuntime factory' n' = Panic ''close of closed channel'') \<and>
   (\<exists>r. ProvisionHostedRuntime factory NewRuntimeHostNode = Returns r)"
proof -
  have "\<exists>r. ProvisionHostedRuntime factory NewRuntimeHostNode = Returns r"
    by (rule provision_open) (simp add: NewRuntimeHostNode_def)
  then show ?thesis
    using provision_success [of factory n rr nt err n'] provision_closed [of n' factory' agg']
    by blast
qed

text \<open>C10 at the example factory, provisioning a new node twice.\<close>

theorem second_provision_panics_witness:
  "ProvisionHostedRuntime example_factory NewRuntimeHostNode =
     Returns ((Some (NewRichRuntime example_aggregate), Some NewRuntimeHostNotifier, None),
              provisioned_node) \<and>
   build_aggregate example_factory = Inr example_aggregate \<and>
   ProvisionHostedRuntime example_factory provisioned_node = Panic ''close of closed channel''"
  using second_provision_panics
    [of example_factory NewRuntimeHostNode "NewRichRuntime example_aggregate"
        "Some NewRuntimeHostNotifier" None provisioned_node example_factory example_aggregate]
  by (simp add: provision_example build_example)

text \<open>
  C3 (as amended). While provisioning has not completed and the context is live,
  \<^verbatim>\<open>WaitHostedRuntime\<close> blocks; on the node a successful \<^verbatim>\<open>ProvisionHostedRuntime\<close>
  leaves, it returns the provisioned runtime and no error. With a context that is
  already done it never blocks and the context's error is a possible result; that is
  the only result while provisioning has not completed. Once provisioning has completed
  as well, both cases of the \<^verbatim>\<open>select\<close> can proceed and the call returns either the
  context's error or the provisioned runtime.
\<close>

theorem WaitHostedRuntime_select:
  "(runtimeNotify n = Open \<longrightarrow> WaitHostedRuntime ctx_Live n = {}) \<and>
   (ProvisionHostedRuntime factory n = Returns ((Some rr, nt, err), n') \<longrightarrow>
      WaitHostedRuntime ctx_Live n' = {(Some rr, None)}) \<and>
   (None, Some e) \<in> WaitHostedRuntime (ctx_Done e) n \<and>
   (runtimeNotify n = Open \<longrightarrow> WaitHostedRuntime (ctx_Done e) n = {(None, Some e)}) \<and>
   (runtimeNotify n = Closed \<longrightarrow>
      WaitHostedRuntime (ctx_Done e) n = {(None, Some e), (GetHostedRuntime n, None)})"
  using provision_success [of factory n rr nt err n']
  by (auto simp: WaitHostedRuntime_def GetHostedRuntime_def)

text \<open>C3 at a new node and at the node the example factory provisions.\<close>

theorem WaitHostedRuntime_select_witness:
  "runtimeNotify NewRuntimeHostNode = Open \<and>
   WaitHostedRuntime ctx_Live NewRuntimeHostNode = {} \<and>
   WaitHostedRuntime (ctx_Done ErrCanceled) NewRuntimeHostNode = {(None, Some ErrCanceled)} \<and>
   ProvisionHostedRuntime example_factory NewRuntimeHostNode =
     Returns ((Some (NewRichRuntime example_aggregate), Some NewRuntimeHostNotifier, None),
              provisioned_node) \<and>
   WaitHostedRuntime ctx_Live provisioned_node = {(Some (NewRichRuntime example_aggregate), None)} \<and>
   runtimeNotify provisioned_node = Closed \<and>
   WaitHostedRuntime (ctx_Done ErrCanceled) provisioned_node =
     {(None, Some ErrCanceled), (GetHostedRuntime provisioned_node, None)}"
  using WaitHostedRuntime_select
    [of NewRuntimeHostNode example_factory "NewRichRuntime example_aggregate"
        "Some NewRuntimeHostNotifier" None provisioned_node ErrCanceled]
    WaitHostedRuntime_select
    [of provisioned_node example_factory "NewRichRuntime example_aggregate"
        "Some NewRuntimeHostNotifier" None provisioned_node ErrCanceled]
  by (simp add: provision_example) (simp add: NewRuntimeHostNode_def provisioned_node_def)

text \<open>
  C3 as stated fails: on a provisioned node, a call with a cancelled context may return
  the runtime and a nil error.
\<close>

theorem WaitHostedRuntime_canceled_may_return_runtime:
  "ProvisionHostedRuntime example_factory NewRuntimeHostNode =
     Returns ((Some (NewRichRuntime example_aggregate), Some NewRuntimeHostNotifier, None),
              provisioned_node) \<and>
   (Some (NewRichRuntime example_aggregate), None) \<in>
     WaitHostedRuntime (ctx_Done ErrCanceled) provisioned_node"
  by (simp add: provision_example)
     (simp add: WaitHostedRuntime_def GetHostedRuntime_def provisioned_node_def)

section \<open>Properties of the policy watch loop\<close>

subsection \<open>Invariants of the loop\<close>

lemma on_status_sc_known:
  "sc_known s \<Longrightarrow> on_status env k s newSt = Returns (s', cs) \<Longrightarrow> sc_known s'"
  by (auto simp: on_status_def sc_known_def split: if_splits)

lemma on_epoch_sc_known:
  "sc_known s \<Longrightarrow> on_epoch env f k s epoch = Returns (s', cs) \<Longrightarrow> sc_known s'"
  by (auto simp: on_epoch_def sc_known_def updateKeyManagerQuotePolicy_def Let_def
      split: if_splits sum.splits option.splits)

lemma on_host_event_state:
  "on_host_event env s ev = Returns (s', cs) \<Longrightarrow> s' = s"
  by (auto simp: on_host_event_def Let_def split: if_splits option.splits outcome.splits)

lemma km_loop_sc_known:
  "sc_known s \<Longrightarrow> km_loop env f k s calls evs = Returns (s', cs) \<Longrightarrow> sc_known s'"
proof (induction env f k s calls evs rule: km_loop.induct)
  case (3 env f kmRtID s calls newSt evs)
  then show ?case
    by (auto split: outcome.splits dest: on_status_sc_known)
next
  case (4 env f kmRtID s calls epoch evs)
  then show ?case
    by (auto split: outcome.splits dest: on_epoch_sc_known)
next
  case (5 env f kmRtID s calls ev evs)
  then show ?case
    by (auto split: outcome.splits dest: on_host_event_state)
qed simp_all

lemma km_loop_snoc:
  "CtxDone \<notin> set evs \<Longrightarrow>
     km_loop env f k s calls (evs @ [e]) =
       and_then (km_loop env f k s calls evs) (\<lambda>(s', cs). km_loop env f k s' cs [e])"
  by (induction env f k s calls evs rule: km_loop.induct)
     (simp_all add: and_then_def split: outcome.splits prod.splits)

lemma on_host_event_replay:
  "sc_known s \<Longrightarrow> Started ev \<noteq> None \<or> Updated ev \<noteq> None \<Longrightarrow>
     on_host_event env s ev = Returns (s, known_policies env s)"
  by (auto simp: on_host_event_def known_policies_def sc_known_def policy_request_def
      quote_policy_request_def updateKeyManagerPolicy_def updateKeyManagerQuotePolicy_def
      split: option.splits)

lemma on_host_event_ignored:
  "Started ev = None \<Longrightarrow> Updated ev = None \<Longrightarrow> on_host_event env s ev = Returns (s, [])"
  by (simp add: on_host_event_def)

lemma updateKeyManagerPolicy_request:
  "updateKeyManagerPolicy env x = [policy_request env x]"
  by (simp add: updateKeyManagerPolicy_def policy_request_def)

lemma updateKeyManagerQuotePolicy_request:
  "updateKeyManagerQuotePolicy q = Returns cs \<Longrightarrow> \<exists>p. q = Some p \<and> cs = [quote_policy_request p]"
  by (auto simp: updateKeyManagerQuotePolicy_def quote_policy_request_def split: option.splits)

lemma last_sent_Nil: "last_sent P [] = []"
  by (simp add: last_sent_def)

lemma last_sent_hit: "P b \<Longrightarrow> last_sent P (calls @ [b]) = [b]"
  by (simp add: last_sent_def)

lemma last_sent_miss: "\<not> P b \<Longrightarrow> last_sent P (calls @ [b]) = last_sent P calls"
  by (simp add: last_sent_def)

lemma request_kinds:
  "is_policy_request (policy_request env x)"
  "\<not> is_policy_request (quote_policy_request p)"
  "is_quote_policy_request (quote_policy_request p)"
  "\<not> is_quote_policy_request (policy_request env x)"
  by (simp_all add: is_policy_request_def is_quote_policy_request_def policy_request_def
      quote_policy_request_def empty_Body_def)

lemma last_sent_two:
  "last_sent P (calls @ [a, b]) = last_sent P ((calls @ [a]) @ [b])"
  by simp

lemma on_status_held:
  "held_is_last_sent env s calls \<Longrightarrow> on_status env k s x = Returns (s', cs) \<Longrightarrow>
     held_is_last_sent env s' (calls @ cs)"
  by (auto simp: on_status_def held_is_last_sent_def updateKeyManagerPolicy_request
      last_sent_hit last_sent_miss request_kinds split: if_splits)

lemma on_epoch_held:
  "held_is_last_sent env s calls \<Longrightarrow> on_epoch env f k s epoch = Returns (s', cs) \<Longrightarrow>
     held_is_last_sent env s' (calls @ cs)"
  by (auto simp: on_epoch_def held_is_last_sent_def Let_def last_sent_hit last_sent_miss
      request_kinds
      split: if_splits sum.splits option.splits outcome.splits
      dest!: updateKeyManagerQuotePolicy_request)

lemma on_host_event_held:
  "held_is_last_sent env s calls \<Longrightarrow> sc_known s \<Longrightarrow>
     on_host_event env s ev = Returns (s', cs) \<Longrightarrow> held_is_last_sent env s' (calls @ cs)"
  by (auto simp: on_host_event_def held_is_last_sent_def Let_def updateKeyManagerPolicy_request
      last_sent_hit last_sent_miss request_kinds last_sent_two sc_known_def
      simp del: append_assoc
      split: if_splits option.splits outcome.splits
      dest!: updateKeyManagerQuotePolicy_request)

lemma on_status_inv:
  "loop_inv env s calls \<Longrightarrow> on_status env k s x = Returns (s', cs) \<Longrightarrow>
     loop_inv env s' (calls @ cs)"
  using on_status_held [of env s calls k x s' cs] on_status_sc_known [of s env k x s' cs]
  by (simp add: loop_inv_def)

lemma on_epoch_inv:
  "loop_inv env s calls \<Longrightarrow> on_epoch env f k s epoch = Returns (s', cs) \<Longrightarrow>
     loop_inv env s' (calls @ cs)"
  using on_epoch_held [of env s calls f k epoch s' cs]
    on_epoch_sc_known [of s env f k epoch s' cs]
  by (simp add: loop_inv_def)

lemma on_host_event_inv:
  "loop_inv env s calls \<Longrightarrow> on_host_event env s ev = Returns (s', cs) \<Longrightarrow>
     loop_inv env s' (calls @ cs)"
  using on_host_event_held [of env s calls ev s' cs] on_host_event_state [of env s ev s' cs]
  by (auto simp: loop_inv_def)

lemma km_loop_inv:
  "loop_inv env s calls \<Longrightarrow> km_loop env f k s calls evs = Returns (s', cs) \<Longrightarrow>
     loop_inv env s' cs"
proof (induction env f k s calls evs rule: km_loop.induct)
  case (3 env f kmRtID s calls newSt evs)
  then show ?case
    by (auto split: outcome.splits dest: on_status_inv)
next
  case (4 env f kmRtID s calls epoch evs)
  then show ?case
    by (auto split: outcome.splits dest: on_epoch_inv)
next
  case (5 env f kmRtID s calls ev evs)
  then show ?case
    by (auto split: outcome.splits dest: on_host_event_inv)
qed simp_all

lemma km_init_inv: "loop_inv env km_init []"
  by (simp add: loop_inv_def held_is_last_sent_def sc_known_def km_init_def last_sent_Nil)

lemma km_loop_then:
  "km_loop env f k s0 c0 evs = Returns (s, calls) \<Longrightarrow> CtxDone \<notin> set evs \<Longrightarrow>
     km_loop env f k s0 c0 (evs @ [e]) = km_loop env f k s calls [e]"
  by (simp add: km_loop_snoc and_then_def)

lemma on_status_tracked:
  "st_ID x = k \<Longrightarrow>
     on_status env k s x = Returns (s \<lparr> st := Some x \<rparr>, [policy_request env (st_Policy x)])"
  by (simp add: on_status_def updateKeyManagerPolicy_request)

lemma on_epoch_skip:
  "\<not> f \<or> Registry_GetRuntime env e k = Inl err \<or>
   (Registry_GetRuntime env e k = Inr dsc \<and>
    (TEEHardware dsc \<noteq> TEEHardwareIntelSGX \<or>
     VersionInfo_Equal env (ActiveDeployment env dsc e) (vi s))) \<Longrightarrow>
     on_epoch env f k s e = Returns (s, [])"
  by (auto simp: on_epoch_def Let_def)

lemma on_epoch_malformed:
  "f \<Longrightarrow> Registry_GetRuntime env e k = Inr dsc \<Longrightarrow> TEEHardware dsc = TEEHardwareIntelSGX \<Longrightarrow>
   ActiveDeployment env dsc e = Some v \<Longrightarrow> \<not> VersionInfo_Equal env (Some v) (vi s) \<Longrightarrow>
   cbor_Unmarshal env (vi_TEE v) = Inl err \<Longrightarrow>
     on_epoch env f k s e = Returns (s \<lparr> vi := Some v \<rparr>, [])"
  by (simp add: on_epoch_def Let_def)

lemma on_epoch_push:
  "f \<Longrightarrow> Registry_GetRuntime env e k = Inr dsc \<Longrightarrow> TEEHardware dsc = TEEHardwareIntelSGX \<Longrightarrow>
   ActiveDeployment env dsc e = Some v \<Longrightarrow> \<not> VersionInfo_Equal env (Some v) (vi s) \<Longrightarrow>
   cbor_Unmarshal env (vi_TEE v) = Inr c \<Longrightarrow> sgx_Policy c = Some p \<Longrightarrow>
     on_epoch env f k s e =
       Returns (s \<lparr> vi := Some v, sc := Some c \<rparr>, [quote_policy_request p])"
  by (simp add: on_epoch_def Let_def updateKeyManagerQuotePolicy_def quote_policy_request_def)

lemma on_epoch_push_only:
  "on_epoch env f k s e = Returns (s', cs) \<Longrightarrow> cs \<noteq> [] \<Longrightarrow>
     f \<and> (\<exists>dsc v c p.
        Registry_GetRuntime env e k = Inr dsc \<and> TEEHardware dsc = TEEHardwareIntelSGX \<and>
        ActiveDeployment env dsc e = Some v \<and> \<not> VersionInfo_Equal env (Some v) (vi s) \<and>
        cbor_Unmarshal env (vi_TEE v) = Inr c \<and> sgx_Policy c = Some p \<and>
        cs = [quote_policy_request p] \<and> s' = s \<lparr> vi := Some v, sc := Some c \<rparr>)"
  by (auto simp: on_epoch_def Let_def updateKeyManagerQuotePolicy_def quote_policy_request_def
      split: if_splits sum.splits option.splits)

subsection \<open>Replay on host events\<close>

text \<open>
  C4. A policy is observed when a status of the tracked key manager arrives, a quote
  policy when an epoch brings a new deployment whose constraints decode; the loop then
  holds it and sends it. After any run of the inner watch loop that is still running, a
  host event with \<^verbatim>\<open>Started\<close> or \<^verbatim>\<open>Updated\<close> set sends again the key-manager policy
  request sent last, if any, then the quote-policy request sent last, if any, and leaves
  the loop variables as they are; no status or epoch event is involved. A host event
  with both fields nil sends nothing. The requests sent last are those for the status
  and the constraints the loop holds.
\<close>

theorem host_event_replays_observed_policies:
  "(km_loop env f k km_init [] evs = Returns (s, calls) \<and> CtxDone \<notin> set evs \<and> st_ID x = k \<longrightarrow>
      km_loop env f k km_init [] (evs @ [StatusEvent x]) =
        Returns (s \<lparr> st := Some x \<rparr>, calls @ [policy_request env (st_Policy x)])) \<and>
   (km_loop env f k km_init [] evs = Returns (s, calls) \<and> CtxDone \<notin> set evs \<and> f \<and>
    Registry_GetRuntime env e k = Inr dsc \<and> TEEHardware dsc = TEEHardwareIntelSGX \<and>
    ActiveDeployment env dsc e = Some v \<and> \<not> VersionInfo_Equal env (Some v) (vi s) \<and>
    cbor_Unmarshal env (vi_TEE v) = Inr c \<and> sgx_Policy c = Some p \<longrightarrow>
      km_loop env f k km_init [] (evs @ [EpochEvent e]) =
        Returns (s \<lparr> vi := Some v, sc := Some c \<rparr>, calls @ [quote_policy_request p])) \<and>
   (km_loop env f k km_init [] evs = Returns (s, calls) \<and> CtxDone \<notin> set evs \<and>
    (Started ev \<noteq> None \<or> Updated ev \<noteq> None) \<longrightarrow>
      km_loop env f k km_init [] (evs @ [HostEvent ev]) =
        Returns (s, calls @ last_sent is_policy_request calls @
                    last_sent is_quote_policy_request calls)) \<and>
   (km_loop env f k km_init [] evs = Returns (s, calls) \<and> CtxDone \<notin> set evs \<and>
    Started ev = None \<and> Updated ev = None \<longrightarrow>
      km_loop env f k km_init [] (evs @ [HostEvent ev]) = Returns (s, calls)) \<and>
   (km_loop env f k km_init [] evs = Returns (s, calls) \<longrightarrow>
      last_sent is_policy_request calls =
        (case st s of None \<Rightarrow> [] | Some status \<Rightarrow> [policy_request env (st_Policy status)]) \<and>
      last_sent is_quote_policy_request calls =
        (case sc s of
           None \<Rightarrow> []
         | Some c \<Rightarrow> (case sgx_Policy c of None \<Rightarrow> [] | Some p \<Rightarrow> [quote_policy_request p])))"
proof -
  have inv: "loop_inv env s calls" if "km_loop env f k km_init [] evs = Returns (s, calls)"
    using km_loop_inv [OF km_init_inv that] .
  have status: "km_loop env f k km_init [] (evs @ [StatusEvent x]) =
      Returns (s \<lparr> st := Some x \<rparr>, calls @ [policy_request env (st_Policy x)])"
    if "km_loop env f k km_init [] evs = Returns (s, calls)" "CtxDone \<notin> set evs" "st_ID x = k"
    using that by (simp add: km_loop_then on_status_tracked)
  have epoch: "km_loop env f k km_init [] (evs @ [EpochEvent e]) =
      Returns (s \<lparr> vi := Some v, sc := Some c \<rparr>, calls @ [quote_policy_request p])"
    if "km_loop env f k km_init [] evs = Returns (s, calls)" "CtxDone \<notin> set evs" "f"
      "Registry_GetRuntime env e k = Inr dsc" "TEEHardware dsc = TEEHardwareIntelSGX"
      "ActiveDeployment env dsc e = Some v" "\<not> VersionInfo_Equal env (Some v) (vi s)"
      "cbor_Unmarshal env (vi_TEE v) = Inr c" "sgx_Policy c = Some p"
    using that by (simp add: km_loop_then on_epoch_push)
  have replay: "km_loop env f k km_init [] (evs @ [HostEvent ev]) =
      Returns (s, calls @ last_sent is_policy_request calls @
                  last_sent is_quote_policy_request calls)"
    if "km_loop env f k km_init [] evs = Returns (s, calls)" "CtxDone \<notin> set evs"
      "Started ev \<noteq> None \<or> Updated ev \<noteq> None"
  proof -
    from inv [OF that(1)] have "sc_known s" and "held_is_last_sent env s calls"
      by (simp_all add: loop_inv_def)
    then show ?thesis
      using that on_host_event_replay [of s ev env]
      by (simp add: km_loop_then known_policies_def held_is_last_sent_def)
  qed
  have ignored: "km_loop env f k km_init [] (evs @ [HostEvent ev]) = Returns (s, calls)"
    if "km_loop env f k km_init [] evs = Returns (s, calls)" "CtxDone \<notin> set evs"
      "Started ev = None" "Updated ev = None"
    using that by (simp add: km_loop_then on_host_event_ignored)
  have held: "held_is_last_sent env s calls"
    if "km_loop env f k km_init [] evs = Returns (s, calls)"
    using inv [OF that] by (simp add: loop_inv_def)
  show ?thesis
  proof (intro conjI impI, goal_cases)
    case 1
    then show ?case by (elim conjE) (rule status, assumption+)
  next
    case 2
    then show ?case by (elim conjE) (rule epoch, assumption+)
  next
    case 3
    then show ?case by (elim conjE) (rule replay, assumption+)
  next
    case 4
    then show ?case by (elim conjE) (rule ignored, assumption+)
  next
    case 5
    then show ?case using held by (simp add: held_is_last_sent_def)
  next
    case 6
    then show ?case using held by (simp add: held_is_last_sent_def)
  qed
qed

lemma example_env_answers:
  "Registry_GetRuntime (example_env tee) e k = Inr (example_descriptor tee)"
  "TEEHardware (example_descriptor tee) = TEEHardwareIntelSGX"
  "ActiveDeployment (example_env tee) (example_descriptor tee) e = Some (example_deployment tee)"
  "VersionInfo_Equal (example_env tee) a b = (a = b)"
  "cbor_Unmarshal (example_env tee) (vi_TEE (example_deployment tee)) =
     (if tee = [] then Inl (ErrCollaborator ''EOF'') else Inr \<lparr> sgx_Policy = Some tee \<rparr>)"
  by (simp_all add: example_env_def example_descriptor_def example_deployment_def)

lemma example_states:
  "vi km_init = None"
  "vi (km_init \<lparr> st := Some example_status \<rparr>) = None"
  "km_init \<lparr> st := Some example_status, vi := Some (example_deployment tee),
            sc := Some \<lparr> sgx_Policy = Some tee \<rparr> \<rparr> = example_state tee"
  "vi (example_state tee) = Some (example_deployment tee)"
  by (simp_all add: km_init_def example_state_def example_deployment_def)


lemma example_run1:
  "km_loop (example_env [9]) True [7] km_init [] [StatusEvent example_status] =
     Returns (km_init \<lparr> st := Some example_status \<rparr>,
       [policy_request (example_env [9]) (Some [5])])"
  by (simp add: on_status_def example_status_def updateKeyManagerPolicy_request)

lemma example_run:
  "km_loop (example_env [9]) True [7] km_init [] [StatusEvent example_status, EpochEvent 1] =
     Returns (example_state [9],
       [policy_request (example_env [9]) (Some [5]), quote_policy_request [9]])"
  by (simp add: on_status_def on_epoch_def example_status_def example_state_def km_init_def
      updateKeyManagerPolicy_request updateKeyManagerQuotePolicy_def quote_policy_request_def
      example_env_def)

lemma example_last_sent:
  "last_sent is_policy_request
     [policy_request (example_env [9]) (Some [5]), quote_policy_request [9]] =
     [policy_request (example_env [9]) (Some [5])]"
  "last_sent is_quote_policy_request
     [policy_request (example_env [9]) (Some [5]), quote_policy_request [9]] =
     [quote_policy_request [9]]"
  by (simp_all add: last_sent_def request_kinds)

text \<open>
  C4 at a run that sees one status, then one epoch, then a start event or an event with
  neither field set.
\<close>

theorem host_event_replays_observed_policies_witness:
  "km_loop (example_env [9]) True [7] km_init [] ([] @ [StatusEvent example_status]) =
     Returns (km_init \<lparr> st := Some example_status \<rparr>,
       [policy_request (example_env [9]) (Some [5])]) \<and>
   km_loop (example_env [9]) True [7] km_init []
     ([StatusEvent example_status] @ [EpochEvent 1]) =
     Returns (example_state [9],
       [policy_request (example_env [9]) (Some [5]), quote_policy_request [9]]) \<and>
   km_loop (example_env [9]) True [7] km_init []
     ([StatusEvent example_status, EpochEvent 1] @
      [HostEvent \<lparr> Started = Some [], Updated = None \<rparr>]) =
     Returns (example_state [9],
       [policy_request (example_env [9]) (Some [5]), quote_policy_request [9],
        policy_request (example_env [9]) (Some [5]), quote_policy_request [9]]) \<and>
   km_loop (example_env [9]) True [7] km_init []
     ([StatusEvent example_status, EpochEvent 1] @
      [HostEvent \<lparr> Started = None, Updated = None \<rparr>]) =
     Returns (example_state [9],
       [policy_request (example_env [9]) (Some [5]), quote_policy_request [9]])"
proof -
  have w1: "km_loop (example_env [9]) True [7] km_init [] ([] @ [StatusEvent example_status]) =
      Returns (km_init \<lparr> st := Some example_status \<rparr>,
        [policy_request (example_env [9]) (Some [5])])"
    using host_event_replays_observed_policies
      [where env = "example_env [9]" and f = True and k = "[7]" and evs = "[]"
         and s = km_init and calls = "[]" and x = example_status]
    by (simp add: example_status_def)
  have w2: "km_loop (example_env [9]) True [7] km_init []
      ([StatusEvent example_status] @ [EpochEvent 1]) =
      Returns (example_state [9],
        [policy_request (example_env [9]) (Some [5]), quote_policy_request [9]])"
    using host_event_replays_observed_policies
      [where env = "example_env [9]" and f = True and k = "[7]"
         and evs = "[StatusEvent example_status]"
         and s = "km_init \<lparr> st := Some example_status \<rparr>"
         and calls = "[policy_request (example_env [9]) (Some [5])]" and e = 1
         and dsc = "example_descriptor [9]" and v = "example_deployment [9]"
         and c = "\<lparr> sgx_Policy = Some [9] \<rparr>" and p = "[9]"]
    by (simp del: km_loop.simps append.simps add: example_run1 example_env_answers example_states)
  have w3: "km_loop (example_env [9]) True [7] km_init []
      ([StatusEvent example_status, EpochEvent 1] @
       [HostEvent \<lparr> Started = Some [], Updated = None \<rparr>]) =
      Returns (example_state [9],
        [policy_request (example_env [9]) (Some [5]), quote_policy_request [9],
         policy_request (example_env [9]) (Some [5]), quote_policy_request [9]])"
    using host_event_replays_observed_policies
      [where env = "example_env [9]" and f = True and k = "[7]"
         and evs = "[StatusEvent example_status, EpochEvent 1]"
         and s = "example_state [9]"
         and calls = "[policy_request (example_env [9]) (Some [5]), quote_policy_request [9]]"
         and ev = "\<lparr> Started = Some [], Updated = None \<rparr>"]
    by (simp del: km_loop.simps add: example_run example_last_sent)
  have w4: "km_loop (example_env [9]) True [7] km_init []
      ([StatusEvent example_status, EpochEvent 1] @
       [HostEvent \<lparr> Started = None, Updated = None \<rparr>]) =
      Returns (example_state [9],
        [policy_request (example_env [9]) (Some [5]), quote_policy_request [9]])"
    using host_event_replays_observed_policies
      [where env = "example_env [9]" and f = True and k = "[7]"
         and evs = "[StatusEvent example_status, EpochEvent 1]"
         and s = "example_state [9]"
         and calls = "[policy_request (example_env [9]) (Some [5]), quote_policy_request [9]]"
         and ev = "\<lparr> Started = None, Updated = None \<rparr>"]
    by (simp del: km_loop.simps add: example_run)
  from w1 w2 w3 w4 show ?thesis by (intro conjI)
qed

subsection \<open>Quote policy on epoch transitions\<close>

lemma km_loop_epoch:
  "km_loop env f k km_init [] evs = Returns (s, calls) \<Longrightarrow> CtxDone \<notin> set evs \<Longrightarrow>
     km_loop env f k km_init [] (evs @ [EpochEvent e]) =
       (case on_epoch env f k s e of
          Panic msg \<Rightarrow> Panic msg
        | Returns (s', cs) \<Rightarrow> Returns (s', calls @ cs))"
  by (simp add: km_loop_then split: outcome.splits)

text \<open>
  C5 (as amended). After any run of the inner watch loop that is still running, an epoch
  sends nothing and changes nothing when the \<^verbatim>\<open>KeyManagerQuotePolicyUpdates\<close> feature is
  off, the registry query fails, the hardware is not Intel SGX, or the active deployment
  equals the one the loop recorded last. When the active deployment differs, the loop
  records it; if its constraints do not decode nothing is sent, and if they decode to
  constraints with policy \<open>p\<close> the loop keeps them and sends the quote-policy update
  for \<open>p\<close>. An epoch that sends anything sends exactly that one request, under
  exactly these conditions. An equal deployment at the next epoch is not sent again.
\<close>

theorem epoch_quote_policy_push:
  "(km_loop env f k km_init [] evs = Returns (s, calls) \<and> CtxDone \<notin> set evs \<and>
    (\<not> f \<or> Registry_GetRuntime env e k = Inl err \<or>
     (Registry_GetRuntime env e k = Inr dsc \<and>
      (TEEHardware dsc \<noteq> TEEHardwareIntelSGX \<or>
       VersionInfo_Equal env (ActiveDeployment env dsc e) (vi s)))) \<longrightarrow>
      km_loop env f k km_init [] (evs @ [EpochEvent e]) = Returns (s, calls)) \<and>
   (km_loop env f k km_init [] evs = Returns (s, calls) \<and> CtxDone \<notin> set evs \<and> f \<and>
    Registry_GetRuntime env e k = Inr dsc \<and> TEEHardware dsc = TEEHardwareIntelSGX \<and>
    ActiveDeployment env dsc e = Some v \<and> \<not> VersionInfo_Equal env (Some v) (vi s) \<and>
    cbor_Unmarshal env (vi_TEE v) = Inl err \<longrightarrow>
      km_loop env f k km_init [] (evs @ [EpochEvent e]) =
        Returns (s \<lparr> vi := Some v \<rparr>, calls)) \<and>
   (km_loop env f k km_init [] evs = Returns (s, calls) \<and> CtxDone \<notin> set evs \<and> f \<and>
    Registry_GetRuntime env e k = Inr dsc \<and> TEEHardware dsc = TEEHardwareIntelSGX \<and>
    ActiveDeployment env dsc e = Some v \<and> \<not> VersionInfo_Equal env (Some v) (vi s) \<and>
    cbor_Unmarshal env (vi_TEE v) = Inr c \<and> sgx_Policy c = Some p \<longrightarrow>
      km_loop env f k km_init [] (evs @ [EpochEvent e]) =
        Returns (s \<lparr> vi := Some v, sc := Some c \<rparr>, calls @ [quote_policy_request p])) \<and>
   (km_loop env f k km_init [] evs = Returns (s, calls) \<and> CtxDone \<notin> set evs \<and>
    km_loop env f k km_init [] (evs @ [EpochEvent e]) = Returns (s', calls') \<and>
    calls' \<noteq> calls \<longrightarrow>
      f \<and>
      (\<exists>dsc v c p.
         Registry_GetRuntime env e k = Inr dsc \<and> TEEHardware dsc = TEEHardwareIntelSGX \<and>
         ActiveDeployment env dsc e = Some v \<and> \<not> VersionInfo_Equal env (Some v) (vi s) \<and>
         cbor_Unmarshal env (vi_TEE v) = Inr c \<and> sgx_Policy c = Some p \<and>
         calls' = calls @ [quote_policy_request p] \<and>
         s' = s \<lparr> vi := Some v, sc := Some c \<rparr>)) \<and>
   (km_loop env f k km_init [] evs = Returns (s, calls) \<and> CtxDone \<notin> set evs \<and> f \<and>
    Registry_GetRuntime env e k = Inr dsc \<and> TEEHardware dsc = TEEHardwareIntelSGX \<and>
    ActiveDeployment env dsc e = Some v \<and> \<not> VersionInfo_Equal env (Some v) (vi s) \<and>
    cbor_Unmarshal env (vi_TEE v) = Inr c \<and> sgx_Policy c = Some p \<and>
    Registry_GetRuntime env e' k = Inr dsc' \<and>
    VersionInfo_Equal env (ActiveDeployment env dsc' e') (Some v) \<longrightarrow>
      km_loop env f k km_init [] (evs @ [EpochEvent e, EpochEvent e']) =
        Returns (s \<lparr> vi := Some v, sc := Some c \<rparr>, calls @ [quote_policy_request p]))"
proof (intro conjI impI, goal_cases)
  case 1
  then show ?case
    using on_epoch_skip [of f env e k err dsc s]
    by (elim conjE) (simp add: km_loop_epoch)
next
  case 2
  then show ?case
    by (elim conjE) (simp add: km_loop_epoch on_epoch_malformed)
next
  case 3
  then show ?case
    by (elim conjE) (simp add: km_loop_epoch on_epoch_push)
next
  case 4
  then show ?case
    by (auto simp: km_loop_epoch split: outcome.splits dest: on_epoch_push_only)
next
  case 5
  then have run: "km_loop env f k km_init [] evs = Returns (s, calls)"
    and live: "CtxDone \<notin> set evs"
    and next_run: "km_loop env f k km_init [] (evs @ [EpochEvent e]) = Returns (s', calls')"
    and more: "calls' \<noteq> calls"
    by simp_all
  from km_loop_epoch [OF run live, of e] next_run
  have "\<exists>cs. on_epoch env f k s e = Returns (s', cs) \<and> calls' = calls @ cs"
    by (auto split: outcome.splits)
  then obtain cs where step: "on_epoch env f k s e = Returns (s', cs)"
    and sent: "calls' = calls @ cs"
    by blast
  from sent more have some: "cs \<noteq> []"
    by auto
  from on_epoch_push_only [OF step some] sent show ?case
    by auto
next
  case 6
  then have first: "km_loop env f k km_init [] (evs @ [EpochEvent e]) =
      Returns (s \<lparr> vi := Some v, sc := Some c \<rparr>, calls @ [quote_policy_request p])"
    by (elim conjE) (simp add: km_loop_epoch on_epoch_push)
  from 6 have "CtxDone \<notin> set (evs @ [EpochEvent e])"
    by simp
  from km_loop_epoch [OF first this, of e'] 6
  show ?case
    using on_epoch_skip [of f env e' k err dsc' "s \<lparr> vi := Some v, sc := Some c \<rparr>"]
    by simp
qed

text \<open>
  C5 at the example registry: a first epoch that sends, a second one on the same
  deployment that does not, a deployment whose constraints do not decode, and an epoch
  after a run that has the deployment recorded.
\<close>

theorem epoch_quote_policy_push_witness:
  "km_loop (example_env [9]) True [7] km_init [] ([] @ [EpochEvent 1]) =
     Returns (km_init \<lparr> vi := Some (example_deployment [9]),
                       sc := Some \<lparr> sgx_Policy = Some [9] \<rparr> \<rparr>,
              [] @ [quote_policy_request [9]]) \<and>
   km_loop (example_env [9]) True [7] km_init [] ([] @ [EpochEvent 1, EpochEvent 2]) =
     Returns (km_init \<lparr> vi := Some (example_deployment [9]),
                       sc := Some \<lparr> sgx_Policy = Some [9] \<rparr> \<rparr>,
              [] @ [quote_policy_request [9]]) \<and>
   km_loop (example_env []) True [7] km_init [] ([] @ [EpochEvent 1]) =
     Returns (km_init \<lparr> vi := Some (example_deployment []) \<rparr>, []) \<and>
   km_loop (example_env [9]) True [7] km_init []
     ([StatusEvent example_status, EpochEvent 1] @ [EpochEvent 2]) =
     Returns (example_state [9],
       [policy_request (example_env [9]) (Some [5]), quote_policy_request [9]]) \<and>
   (\<exists>dsc v c p.
      Registry_GetRuntime (example_env [9]) 1 [7] = Inr dsc \<and>
      TEEHardware dsc = TEEHardwareIntelSGX \<and>
      ActiveDeployment (example_env [9]) dsc 1 = Some v \<and>
      \<not> VersionInfo_Equal (example_env [9]) (Some v) (vi km_init) \<and>
      cbor_Unmarshal (example_env [9]) (vi_TEE v) = Inr c \<and> sgx_Policy c = Some p \<and>
      [] @ [quote_policy_request [9]] = [] @ [quote_policy_request p] \<and>
      km_init \<lparr> vi := Some (example_deployment [9]), sc := Some \<lparr> sgx_Policy = Some [9] \<rparr> \<rparr> =
        km_init \<lparr> vi := Some v, sc := Some c \<rparr>)"
proof -
  have w3: "km_loop (example_env [9]) True [7] km_init [] ([] @ [EpochEvent 1]) =
      Returns (km_init \<lparr> vi := Some (example_deployment [9]),
                        sc := Some \<lparr> sgx_Policy = Some [9] \<rparr> \<rparr>,
               [] @ [quote_policy_request [9]])"
    by (rule epoch_quote_policy_push
        [where dsc = "example_descriptor [9]", THEN conjunct2, THEN conjunct2, THEN conjunct1,
          THEN mp])
       (simp add: example_env_answers example_states)
  have w5: "km_loop (example_env [9]) True [7] km_init [] ([] @ [EpochEvent 1, EpochEvent 2]) =
      Returns (km_init \<lparr> vi := Some (example_deployment [9]),
                        sc := Some \<lparr> sgx_Policy = Some [9] \<rparr> \<rparr>,
               [] @ [quote_policy_request [9]])"
    by (rule epoch_quote_policy_push
        [where dsc = "example_descriptor [9]" and dsc' = "example_descriptor [9]",
          THEN conjunct2, THEN conjunct2, THEN conjunct2, THEN conjunct2, THEN mp])
       (simp add: example_env_answers example_states)
  have w2: "km_loop (example_env []) True [7] km_init [] ([] @ [EpochEvent 1]) =
      Returns (km_init \<lparr> vi := Some (example_deployment []) \<rparr>, [])"
    by (rule epoch_quote_policy_push
        [where dsc = "example_descriptor []" and err = "ErrCollaborator ''EOF''",
          THEN conjunct2, THEN conjunct1, THEN mp])
       (simp add: example_env_answers example_states)
  have w1: "km_loop (example_env [9]) True [7] km_init []
      ([StatusEvent example_status, EpochEvent 1] @ [EpochEvent 2]) =
      Returns (example_state [9],
        [policy_request (example_env [9]) (Some [5]), quote_policy_request [9]])"
    by (rule epoch_quote_policy_push
        [where dsc = "example_descriptor [9]", THEN conjunct1, THEN mp])
       (simp del: km_loop.simps add: example_run example_env_answers example_states)
  have w4: "True \<and> (\<exists>dsc v c p.
      Registry_GetRuntime (example_env [9]) 1 [7] = Inr dsc \<and>
      TEEHardware dsc = TEEHardwareIntelSGX \<and>
      ActiveDeployment (example_env [9]) dsc 1 = Some v \<and>
      \<not> VersionInfo_Equal (example_env [9]) (Some v) (vi km_init) \<and>
      cbor_Unmarshal (example_env [9]) (vi_TEE v) = Inr c \<and> sgx_Policy c = Some p \<and>
      [] @ [quote_policy_request [9]] = [] @ [quote_policy_request p] \<and>
      km_init \<lparr> vi := Some (example_deployment [9]), sc := Some \<lparr> sgx_Policy = Some [9] \<rparr> \<rparr> =
        km_init \<lparr> vi := Some v, sc := Some c \<rparr>)"
    by (rule epoch_quote_policy_push
        [where evs = "[]" and calls = "[]",
          THEN conjunct2, THEN conjunct2, THEN conjunct2, THEN conjunct1, THEN mp])
       (simp del: km_loop.simps append.simps add: km_loop.simps(1) w3)
  from w3 w5 w2 w1 w4 show ?thesis
    by blast
qed

text \<open>
  C5 as stated fails: with the feature set, SGX hardware and a deployment that differs
  from the last observed one (none), a deployment whose constraints do not decode sends
  nothing; the loop only records the deployment.
\<close>

theorem malformed_constraints_no_push:
  "Registry_GetRuntime (example_env []) 1 [7] =
     Inr \<lparr> TEEHardware = TEEHardwareIntelSGX,
           Deployments = [\<lparr> vi_Version = (1, 0, 0), vi_TEE = [] \<rparr>] \<rparr> \<and>
   ActiveDeployment (example_env [])
     \<lparr> TEEHardware = TEEHardwareIntelSGX,
       Deployments = [\<lparr> vi_Version = (1, 0, 0), vi_TEE = [] \<rparr>] \<rparr> 1 =
     Some \<lparr> vi_Version = (1, 0, 0), vi_TEE = [] \<rparr> \<and>
   VersionInfo_Equal (example_env []) (Some \<lparr> vi_Version = (1, 0, 0), vi_TEE = [] \<rparr>)
     (vi km_init) = False \<and>
   on_epoch (example_env []) True [7] km_init 1 =
     Returns (km_init \<lparr> vi := Some \<lparr> vi_Version = (1, 0, 0), vi_TEE = [] \<rparr> \<rparr>, [])"
  by (simp add: on_epoch_def example_env_def km_init_def)

end
